theory Spec2Isabelle
  imports Complex_Main "HOL-Library.Stream"
begin

section \<open>JavaScript values and errors\<close>

text \<open>
  The game (js/app.js) computes with JavaScript numbers. Pixel coordinates, sizes, speeds
  and the frame time dt are modelled as \<open>real\<close> (rounding of doubles is not modelled);
  grid rows and columns, z-indices and scores are integers in every run of the program and
  are modelled as \<open>int\<close>. A thrown exception is the \<open>Inl\<close> branch of a sum; the
  values \<open>undefined\<close> and \<open>null\<close> that an array read may yield are explicit.
\<close>

datatype error = Error string | TypeError | ReferenceError | RangeError

datatype 'a jsval = Undefined | Null | Val 'a

text \<open>\<open>xs[i]\<close> for an integer \<open>i\<close>: a read outside the array yields \<open>undefined\<close>.\<close>

definition js_index :: "'a list \<Rightarrow> int \<Rightarrow> 'a jsval" where
  "js_index xs i = (if 0 \<le> i \<and> i < int (length xs) then Val (xs ! nat i) else Undefined)"

section \<open>Geometry: Point, Dimensions, Area\<close>

record Point =
  Point_x :: real
  Point_y :: real

record Dimensions =
  width :: real
  height :: real

record Area =
  Area_position :: Point
  Area_dimensions :: Dimensions

text \<open>The argument of \<open>contains\<close>, \<open>intersectsWith\<close> and \<open>centerOn\<close>: a Point, an Area,
  or anything else (for which the \<open>instanceof\<close> tests all fail).\<close>

datatype objectInSpace = PointObj Point | AreaObj Area | OtherObj

definition Point_offset :: "Point \<Rightarrow> real \<Rightarrow> real \<Rightarrow> Point" where
  "Point_offset p xOffset yOffset =
     \<lparr>Point_x = Point_x p + xOffset, Point_y = Point_y p + yOffset\<rparr>"

text \<open>The constructor of Area throws when handed \<open>null\<close> (\<open>None\<close>) for either argument.\<close>

definition Area_new :: "Point option \<Rightarrow> Dimensions option \<Rightarrow> error + Area" where
  "Area_new p d =
     (case p of
        None \<Rightarrow> Inl (Error ''an area must have a position'')
      | Some p' \<Rightarrow>
          (case d of
             None \<Rightarrow> Inl (Error ''an area must have dimensions'')
           | Some d' \<Rightarrow> Inr \<lparr>Area_position = p', Area_dimensions = d'\<rparr>))"

definition Area_width :: "Area \<Rightarrow> real" where
  "Area_width a = width (Area_dimensions a)"

definition Area_height :: "Area \<Rightarrow> real" where
  "Area_height a = height (Area_dimensions a)"

definition Area_topLeft :: "Area \<Rightarrow> Point" where
  "Area_topLeft a = Area_position a"

definition Area_topRight :: "Area \<Rightarrow> Point" where
  "Area_topRight a =
     \<lparr>Point_x = Point_x (Area_position a) + width (Area_dimensions a),
      Point_y = Point_y (Area_position a)\<rparr>"

definition Area_bottomLeft :: "Area \<Rightarrow> Point" where
  "Area_bottomLeft a =
     \<lparr>Point_x = Point_x (Area_position a),
      Point_y = Point_y (Area_position a) + height (Area_dimensions a)\<rparr>"

definition Area_bottomRight :: "Area \<Rightarrow> Point" where
  "Area_bottomRight a =
     \<lparr>Point_x = Point_x (Area_position a) + width (Area_dimensions a),
      Point_y = Point_y (Area_position a) + height (Area_dimensions a)\<rparr>"

definition Area_corners :: "Area \<Rightarrow> Point list" where
  "Area_corners a = [Area_topLeft a, Area_topRight a, Area_bottomLeft a, Area_bottomRight a]"

definition Area_center :: "Area \<Rightarrow> Point" where
  "Area_center a =
     \<lparr>Point_x = Point_x (Area_position a) + width (Area_dimensions a) / 2,
      Point_y = Point_y (Area_position a) + height (Area_dimensions a) / 2\<rparr>"

text \<open>\<open>contains\<close>: the branch for a Point, the branch for an Area, and the method itself,
  which dispatches on the class of its argument and throws on anything else.\<close>

definition Area_containsPoint :: "Area \<Rightarrow> Point \<Rightarrow> bool" where
  "Area_containsPoint a p =
     (Point_x p \<ge> Point_x (Area_topLeft a) \<and>
      Point_x p \<le> Point_x (Area_topRight a) \<and>
      Point_y p \<ge> Point_y (Area_topLeft a) \<and>
      Point_y p \<le> Point_y (Area_bottomLeft a))"

definition Area_containsArea :: "Area \<Rightarrow> Area \<Rightarrow> bool" where
  "Area_containsArea a b = list_all (\<lambda>corner. Area_containsPoint a corner) (Area_corners b)"

definition Area_contains :: "Area \<Rightarrow> objectInSpace \<Rightarrow> error + bool" where
  "Area_contains a obj =
     (case obj of
        PointObj p \<Rightarrow> Inr (Area_containsPoint a p)
      | AreaObj b \<Rightarrow> Inr (Area_containsArea a b)
      | OtherObj \<Rightarrow> Inl (Error ''only objects of type Point and Area are supported''))"

definition Area_intersectsWithArea :: "Area \<Rightarrow> Area \<Rightarrow> bool" where
  "Area_intersectsWithArea a b =
     (list_ex (\<lambda>corner. Area_containsPoint a corner) (Area_corners b) \<or>
      list_ex (\<lambda>corner. Area_containsPoint b corner) (Area_corners a))"

definition Area_intersectsWith :: "Area \<Rightarrow> objectInSpace \<Rightarrow> error + bool" where
  "Area_intersectsWith a obj =
     (case obj of
        PointObj p \<Rightarrow> Area_contains a (PointObj p)
      | AreaObj b \<Rightarrow> Inr (Area_intersectsWithArea a b)
      | OtherObj \<Rightarrow> Inl (Error ''only objects of type Point and Area are supported''))"

definition Area_offset :: "Area \<Rightarrow> real \<Rightarrow> real \<Rightarrow> Area" where
  "Area_offset a xOffset yOffset =
     \<lparr>Area_position = Point_offset (Area_position a) xOffset yOffset,
      Area_dimensions = Area_dimensions a\<rparr>"

definition Area_centerOnPoint :: "Area \<Rightarrow> Point \<Rightarrow> Area" where
  "Area_centerOnPoint a p =
     \<lparr>Area_position =
        \<lparr>Point_x = Point_x p - width (Area_dimensions a) / 2,
         Point_y = Point_y p - height (Area_dimensions a) / 2\<rparr>,
      Area_dimensions = Area_dimensions a\<rparr>"

definition Area_centerOnArea :: "Area \<Rightarrow> Area \<Rightarrow> Area" where
  "Area_centerOnArea a b = Area_centerOnPoint a (Area_center b)"

section \<open>Entities\<close>

text \<open>
  The class hierarchy Entity > Actor > Enemy, Player and Entity > Prop > BoardGridCell, Diamond
  is a hierarchy of extensible records: an operation defined on every Entity takes an
  \<open>'a Entity_scheme\<close>. Prop and Diamond add no field to Entity. The reference \<open>_board\<close>
  that every entity holds is not a field: an operation that follows it takes the grid (or the
  board) as an argument.
\<close>

record EntityVisual =
  sprite :: string
  dimensions :: "Dimensions option"
  occupiedArea :: Area

record Entity =
  visual :: EntityVisual
  position :: Point
  zIndex :: int
  removeOnHit :: bool
  hitScoreIncrement :: int

record Actor = Entity +
  canMoveOutsideBoard :: bool

record Increment =
  inc_x :: real
  inc_y :: real

record Enemy = Actor +
  moveIncrement :: Increment
  respawnOnNextUpdate :: bool

record GridPosition =
  row :: int
  column :: int

record Player = Actor +
  gridPosition :: GridPosition
  score :: int

record BoardGridCell = Entity +
  cellType :: string
  cellGridPosition :: GridPosition

type_synonym Prop = Entity

type_synonym Diamond = Entity

text \<open>An element of \<open>Board.nonPlayerEntities\<close>, tagged with its class (what \<open>instanceof\<close>
  tests): a grid cell, a diamond, an enemy, or a plain Prop (the blood marks).\<close>

datatype nonPlayerEntity =
  CellE BoardGridCell | DiamondE Diamond | EnemyE Enemy | PropE Prop

record BoardGrid =
  numberOfColumns :: int
  grid_rowTypes :: "string list"
  rows :: "BoardGridCell jsval list list"
  grid_cellVisualTemplate :: EntityVisual
  grid_occupiedArea :: Area
  cells :: "BoardGridCell list"

record IncrementRange =
  range_min :: real
  range_max :: real

record Board =
  numberOfEnemies :: nat
  numberOfDiamonds :: nat
  enemyIncrementRange :: IncrementRange
  cellVisualTemplate :: EntityVisual
  grid :: BoardGrid
  nonPlayerEntities :: "nonPlayerEntity list"
  player :: Player

text \<open>The arguments of the constructor of Board.\<close>

record BoardConfig =
  cfg_numberOfColumns :: int
  cfg_rowTypes :: "string list"
  cfg_numberOfEnemies :: nat
  cfg_numberOfDiamonds :: nat
  cfg_enemyIncrementRange :: IncrementRange
  cfg_cellVisualTemplate :: EntityVisual

subsection \<open>EntityVisual and Entity\<close>

text \<open>\<open>new EntityVisual({sprite, dimensions, occupiedArea})\<close>: an absent occupied area is the
  area of the full visual, whose construction throws when the dimensions are absent too.\<close>

definition EntityVisual_new ::
  "string \<Rightarrow> Dimensions option \<Rightarrow> Area option \<Rightarrow> error + EntityVisual" where
  "EntityVisual_new spr dims occ =
     (case occ of
        Some a \<Rightarrow> Inr \<lparr>sprite = spr, dimensions = dims, occupiedArea = a\<rparr>
      | None \<Rightarrow>
          (case Area_new (Some \<lparr>Point_x = 0, Point_y = 0\<rparr>) dims of
             Inl e \<Rightarrow> Inl e
           | Inr a \<Rightarrow> Inr \<lparr>sprite = spr, dimensions = dims, occupiedArea = a\<rparr>))"

definition Entity_area :: "'a Entity_scheme \<Rightarrow> error + Area" where
  "Entity_area e = Area_new (Some (position e)) (dimensions (visual e))"

definition Entity_occupiedArea :: "'a Entity_scheme \<Rightarrow> Area" where
  "Entity_occupiedArea e =
     Area_offset (occupiedArea (visual e)) (Point_x (position e)) (Point_y (position e))"

definition touches :: "'a Entity_scheme \<Rightarrow> 'b Entity_scheme \<Rightarrow> bool" where
  "touches e other = Area_intersectsWithArea (Entity_occupiedArea e) (Entity_occupiedArea other)"

subsection \<open>BoardGridCell and BoardGrid\<close>

definition typeToSprite :: "string \<Rightarrow> error + string" where
  "typeToSprite ty =
     (if ty = ''grass'' then Inr ''images/grass.png''
      else if ty = ''road'' then Inr ''images/road.png''
      else if ty = ''water'' then Inr ''images/water.png''
      else Inl (Error (''type '' @ [CHR 0x27] @ ty @ [CHR 0x27] @ '' not supported'')))"

text \<open>\<open>calculateCellPosition\<close> reads the cell template of the board that owns the grid.\<close>

definition calculateCellPosition :: "EntityVisual \<Rightarrow> int \<Rightarrow> int \<Rightarrow> Point" where
  "calculateCellPosition tmpl r c =
     (let cellOccupiedAreaDimensions = Area_dimensions (occupiedArea tmpl)
      in \<lparr>Point_x = of_int c * width cellOccupiedAreaDimensions,
          Point_y = of_int r * height cellOccupiedAreaDimensions\<rparr>)"

definition BoardGridCell_new ::
  "EntityVisual \<Rightarrow> string \<Rightarrow> GridPosition \<Rightarrow> int \<Rightarrow> error + BoardGridCell" where
  "BoardGridCell_new tmpl ty gp z =
     (case typeToSprite ty of
        Inl e \<Rightarrow> Inl e
      | Inr spr \<Rightarrow>
          Inr \<lparr>visual = \<lparr>sprite = spr, dimensions = None,
                  occupiedArea = \<lparr>Area_position = \<lparr>Point_x = 0, Point_y = 52\<rparr>,
                                  Area_dimensions = \<lparr>width = 101, height = 83\<rparr>\<rparr>\<rparr>,
               position = calculateCellPosition tmpl (row gp) (column gp),
               zIndex = z,
               removeOnHit = False,
               hitScoreIncrement = (if ty = ''water'' then 2 else 0),
               cellType = ty,
               cellGridPosition = gp\<rparr>)"

definition placeInGrid :: "EntityVisual \<Rightarrow> BoardGridCell \<Rightarrow> int \<Rightarrow> int \<Rightarrow> BoardGridCell" where
  "placeInGrid tmpl cell r c =
     cell\<lparr>cellGridPosition := \<lparr>row = r, column = c\<rparr>,
          position := calculateCellPosition tmpl r c\<rparr>"

text \<open>The two loops of the constructor of BoardGrid: the inner one makes the cells of row
  \<open>rowIndex\<close> for the column indices still to come, the outer one walks the row types,
  adding the row index to the running z-index. A cell type without a sprite throws.\<close>

fun populateRow ::
  "EntityVisual \<Rightarrow> string \<Rightarrow> int \<Rightarrow> int \<Rightarrow> nat list \<Rightarrow> error + BoardGridCell list" where
  "populateRow tmpl ty z rowIndex [] = Inr []"
| "populateRow tmpl ty z rowIndex (columnIndex # columnIndices) =
     (case BoardGridCell_new tmpl ty \<lparr>row = 0, column = 0\<rparr> z of
        Inl e \<Rightarrow> Inl e
      | Inr cell \<Rightarrow>
          (case populateRow tmpl ty z rowIndex columnIndices of
             Inl e \<Rightarrow> Inl e
           | Inr rest \<Rightarrow> Inr (placeInGrid tmpl cell rowIndex (int columnIndex) # rest)))"

fun populateRows ::
  "EntityVisual \<Rightarrow> int \<Rightarrow> int \<Rightarrow> nat \<Rightarrow> string list \<Rightarrow> error + BoardGridCell list list" where
  "populateRows tmpl n z rowIndex [] = Inr []"
| "populateRows tmpl n z rowIndex (ty # tys) =
     (case populateRow tmpl ty (z + int rowIndex) (int rowIndex) [0..<nat n] of
        Inl e \<Rightarrow> Inl e
      | Inr cellRow \<Rightarrow>
          (case populateRows tmpl n (z + int rowIndex) (Suc rowIndex) tys of
             Inl e \<Rightarrow> Inl e
           | Inr rest \<Rightarrow> Inr (cellRow # rest)))"

text \<open>\<open>new BoardGrid({board, numberOfColumns, rowTypes, cellVisualTemplate})\<close>.
  \<open>new Array(numberOfColumns)\<close> throws a RangeError for a negative length, once per row.
  The field \<open>_area\<close>, read from the canvas, is used by no operation below and is left out.\<close>

definition BoardGrid_new :: "EntityVisual \<Rightarrow> int \<Rightarrow> string list \<Rightarrow> error + BoardGrid" where
  "BoardGrid_new tmpl n tys =
     (if tys \<noteq> [] \<and> n < 0 then Inl RangeError
      else
        (case populateRows tmpl n 0 0 tys of
           Inl e \<Rightarrow> Inl e
         | Inr cellRows \<Rightarrow>
             Inr \<lparr>numberOfColumns = n,
                  grid_rowTypes = tys,
                  rows = map (map Val) cellRows,
                  grid_cellVisualTemplate = tmpl,
                  grid_occupiedArea =
                    \<lparr>Area_position = Area_position (occupiedArea tmpl),
                     Area_dimensions =
                       \<lparr>width = Area_width (occupiedArea tmpl) * of_int n,
                        height = Area_height (occupiedArea tmpl) * of_int (int (length tys))\<rparr>\<rparr>,
                  cells = concat cellRows\<rparr>))"

definition numberOfRows :: "BoardGrid \<Rightarrow> int" where
  "numberOfRows g = int (length (grid_rowTypes g))"

definition hasCell :: "BoardGrid \<Rightarrow> int \<Rightarrow> int \<Rightarrow> bool" where
  "hasCell g r c = (r \<ge> 0 \<and> r < numberOfRows g \<and> c \<ge> 0 \<and> c < numberOfColumns g)"

text \<open>\<open>getCell(row, column)\<close> is \<open>this._rows[row][column]\<close>: indexing \<open>undefined\<close> (a row
  that does not exist) throws a TypeError; a column that does not exist in an existing row
  reads as \<open>undefined\<close>.\<close>

definition getCell :: "BoardGrid \<Rightarrow> int \<Rightarrow> int \<Rightarrow> error + BoardGridCell jsval" where
  "getCell g r c =
     (case js_index (rows g) r of
        Val cellRow \<Rightarrow>
          Inr (case js_index cellRow c of Val v \<Rightarrow> v | Undefined \<Rightarrow> Undefined | Null \<Rightarrow> Null)
      | Undefined \<Rightarrow> Inl TypeError
      | Null \<Rightarrow> Inl TypeError)"

text \<open>The getter \<open>rowTypes\<close> maps every row to the type of its first cell.\<close>

fun rowTypesOf :: "BoardGridCell jsval list list \<Rightarrow> error + string list" where
  "rowTypesOf [] = Inr []"
| "rowTypesOf (cellRow # rest) =
     (case js_index cellRow 0 of
        Val (Val cell) \<Rightarrow>
          (case rowTypesOf rest of Inl e \<Rightarrow> Inl e | Inr tys \<Rightarrow> Inr (cellType cell # tys))
      | _ \<Rightarrow> Inl TypeError)"

definition BoardGrid_rowTypes :: "BoardGrid \<Rightarrow> error + string list" where
  "BoardGrid_rowTypes g = rowTypesOf (rows g)"

subsection \<open>Moving an entity to a cell\<close>

definition moveToCell ::
  "BoardGrid \<Rightarrow> int \<Rightarrow> int \<Rightarrow> 'a Entity_scheme \<Rightarrow> error + 'a Entity_scheme" where
  "moveToCell g r c e =
     (case getCell g r c of
        Inl err \<Rightarrow> Inl err
      | Inr Undefined \<Rightarrow> Inl TypeError
      | Inr Null \<Rightarrow> Inl TypeError
      | Inr (Val cell) \<Rightarrow>
          (let cellArea = Entity_occupiedArea cell;
               actorArea = Entity_occupiedArea e;
               newActorArea = Area_centerOnArea actorArea cellArea
           in Inr (e\<lparr>position :=
                      Point_offset (position e)
                        (Point_x (Area_position newActorArea) - Point_x (Area_position actorArea))
                        (Point_y (Area_position newActorArea) - Point_y (Area_position actorArea))\<rparr>)))"

definition someOnTheBoard :: "BoardGrid \<Rightarrow> 'a Entity_scheme \<Rightarrow> bool" where
  "someOnTheBoard g e = Area_intersectsWithArea (Entity_occupiedArea e) (grid_occupiedArea g)"

subsection \<open>Actor\<close>

text \<open>
  \<open>Actor.canMove\<close> reads the free identifier \<open>board\<close>, not \<open>this._board\<close>. The argument
  \<open>globalBoard\<close> is what that identifier is bound to in the global scope, \<open>None\<close> when it is
  unbound (app.js declares no such name, and the \<open>board\<close> of engine.js is local to its
  closure). The class Board has no member \<open>area\<close>, so \<open>board.area\<close> reads as \<open>undefined\<close>.
\<close>

definition Board_area :: "Board \<Rightarrow> objectInSpace" where
  "Board_area b = OtherObj"

definition Actor_canMove :: "Board option \<Rightarrow> 'a Actor_scheme \<Rightarrow> Increment \<Rightarrow> error + bool" where
  "Actor_canMove globalBoard a increment =
     (if canMoveOutsideBoard a then Inr True
      else
        (let newOccupiedArea = Area_offset (Entity_occupiedArea a) (inc_x increment) (inc_y increment)
         in case globalBoard of
              None \<Rightarrow> Inl ReferenceError
            | Some board \<Rightarrow> Area_intersectsWith newOccupiedArea (Board_area board)))"

text \<open>A stateful method returns its outcome (the returned value or the exception) together
  with the object as the call leaves it.\<close>

definition Actor_move ::
  "Board option \<Rightarrow> 'a Actor_scheme \<Rightarrow> Increment \<Rightarrow> (error + bool) \<times> 'a Actor_scheme" where
  "Actor_move globalBoard a increment =
     (case Actor_canMove globalBoard a \<lparr>inc_x = inc_x increment, inc_y = inc_y increment\<rparr> of
        Inl e \<Rightarrow> (Inl e, a)
      | Inr False \<Rightarrow> (Inr False, a)
      | Inr True \<Rightarrow>
          (Inr True, a\<lparr>position := Point_offset (position a) (inc_x increment) (inc_y increment)\<rparr>))"

subsection \<open>Enemy\<close>

text \<open>\<open>new Enemy({board, hitScoreIncrement, removeOnHit, moveIncrement})\<close>: cloning the
  dimensions of the cell template throws a TypeError when the template has none.\<close>

definition Enemy_new :: "BoardGrid \<Rightarrow> int \<Rightarrow> bool \<Rightarrow> Increment \<Rightarrow> error + Enemy" where
  "Enemy_new g hit remove increment =
     (case dimensions (grid_cellVisualTemplate g) of
        None \<Rightarrow> Inl TypeError
      | Some d \<Rightarrow>
          Inr \<lparr>visual = \<lparr>sprite = (if inc_x increment \<ge> 0 then ''images/enemy-right.png''
                                   else ''images/enemy-left.png''),
                         dimensions = Some d,
                         occupiedArea = \<lparr>Area_position = \<lparr>Point_x = 2, Point_y = 102\<rparr>,
                                         Area_dimensions = \<lparr>width = 96, height = 42\<rparr>\<rparr>\<rparr>,
               position = \<lparr>Point_x = 0, Point_y = 0\<rparr>,
               zIndex = 200,
               removeOnHit = remove,
               hitScoreIncrement = hit,
               canMoveOutsideBoard = True,
               moveIncrement = increment,
               respawnOnNextUpdate = False\<rparr>)"

definition Enemy_update :: "Board option \<Rightarrow> BoardGrid \<Rightarrow> real \<Rightarrow> Enemy \<Rightarrow> error + Enemy" where
  "Enemy_update globalBoard g dt e =
     (let increment = \<lparr>inc_x = inc_x (moveIncrement e) * dt, inc_y = inc_y (moveIncrement e) * dt\<rparr>
      in case Actor_move globalBoard e increment of
           (Inl err, e') \<Rightarrow> Inl err
         | (Inr moved, e') \<Rightarrow> Inr (e'\<lparr>respawnOnNextUpdate := \<not> someOnTheBoard g e'\<rparr>))"

subsection \<open>Player\<close>

definition playerStartPosition :: "BoardGrid \<Rightarrow> GridPosition" where
  "playerStartPosition g =
     \<lparr>row = numberOfRows g - 1, column = \<lceil>(of_int (numberOfColumns g - 1) :: real) / 2\<rceil>\<rparr>"

definition Player_new :: "BoardGrid \<Rightarrow> error + Player" where
  "Player_new g =
     (let start = playerStartPosition g
      in moveToCell g (row start) (column start)
           \<lparr>visual = \<lparr>sprite = ''images/player.png'', dimensions = None,
                      occupiedArea = \<lparr>Area_position = \<lparr>Point_x = 34, Point_y = 120\<rparr>,
                                      Area_dimensions = \<lparr>width = 34, height = 20\<rparr>\<rparr>\<rparr>,
            position = \<lparr>Point_x = 0, Point_y = 0\<rparr>,
            zIndex = 300,
            removeOnHit = False,
            hitScoreIncrement = 0,
            canMoveOutsideBoard = False,
            gridPosition = start,
            score = 0\<rparr>)"

text \<open>The overrides of Player: the setter of \<open>position\<close>, \<open>canMove\<close> and \<open>move\<close> throw as
  their first and only statement.\<close>

definition Player_set_position :: "Player \<Rightarrow> Point \<Rightarrow> (error + unit) \<times> Player" where
  "Player_set_position p newPosition =
     (Inl (Error ''player entities are not allowed to move freely''), p)"

definition Player_canMove :: "Player \<Rightarrow> Increment \<Rightarrow> (error + bool) \<times> Player" where
  "Player_canMove p increment =
     (Inl (Error ''player entities are not allowed to move freely, use canMoveInGrid instead''), p)"

definition Player_move :: "Player \<Rightarrow> Increment \<Rightarrow> (error + bool) \<times> Player" where
  "Player_move p increment =
     (Inl (Error ''player entities are not allowed to move freely, use moveInGrid instead''), p)"

definition canMoveInGrid :: "BoardGrid \<Rightarrow> Player \<Rightarrow> string \<Rightarrow> bool" where
  "canMoveInGrid g p direction =
     (if direction = ''left'' then hasCell g (row (gridPosition p)) (column (gridPosition p) - 1)
      else if direction = ''up'' then hasCell g (row (gridPosition p) - 1) (column (gridPosition p))
      else if direction = ''right'' then hasCell g (row (gridPosition p)) (column (gridPosition p) + 1)
      else if direction = ''down'' then hasCell g (row (gridPosition p) + 1) (column (gridPosition p))
      else False)"

definition moveInGrid :: "BoardGrid \<Rightarrow> Player \<Rightarrow> string \<Rightarrow> (error + bool) \<times> Player" where
  "moveInGrid g p direction =
     (if \<not> canMoveInGrid g p direction then (Inr False, p)
      else if direction \<notin> {''left'', ''up'', ''right'', ''down''}
        then (Inl (Error ''unsupported direction''), p)
      else
        (let gp = gridPosition p;
             gp' = (if direction = ''left'' then gp\<lparr>column := column gp - 1\<rparr>
                    else if direction = ''up'' then gp\<lparr>row := row gp - 1\<rparr>
                    else if direction = ''right'' then gp\<lparr>column := column gp + 1\<rparr>
                    else gp\<lparr>row := row gp + 1\<rparr>);
             p' = p\<lparr>gridPosition := gp'\<rparr>
         in case moveToCell g (row gp') (column gp') p' of
              Inl e \<Rightarrow> (Inl e, p')
            | Inr p'' \<Rightarrow> (Inr True, p'')))"

text \<open>\<open>bleed(direction)\<close> appends a blood Prop at the position of the player; the visual of
  the Prop takes the dimensions of the cell template and cannot be built without them.\<close>

definition bleed :: "Board \<Rightarrow> real \<Rightarrow> error + Board" where
  "bleed b direction =
     (case EntityVisual_new
             (if direction \<ge> 0 then ''images/blood-right.png'' else ''images/blood-left.png'')
             (dimensions (grid_cellVisualTemplate (grid b))) None of
        Inl e \<Rightarrow> Inl e
      | Inr v \<Rightarrow>
          (let blood = \<lparr>visual = v, position = position (player b), zIndex = 100,
                        removeOnHit = False, hitScoreIncrement = 0\<rparr>
           in Inr (b\<lparr>nonPlayerEntities := nonPlayerEntities b @ [PropE blood]\<rparr>)))"

section \<open>Board\<close>

text \<open>
  \<open>Math.random()\<close> is the only input the board reads while it runs. The numbers it will
  return, in order, are a stream that every operation drawing one takes and hands back.
\<close>

definition Math_random :: "real stream \<Rightarrow> real \<times> real stream" where
  "Math_random rs = (shd rs, stl rs)"

definition randBetween :: "real \<Rightarrow> real \<Rightarrow> real \<Rightarrow> int" where
  "randBetween lo hi u = \<lfloor>u * (hi - lo + 1) + lo\<rfloor>"

text \<open>\<open>new Diamond({board, position, hitScoreIncrement = 1})\<close>; \<open>None\<close> is the argument
  left out.\<close>

definition Diamond_new :: "Point \<Rightarrow> int option \<Rightarrow> Diamond" where
  "Diamond_new pos hit =
     \<lparr>visual = \<lparr>sprite = ''images/diamond.png'', dimensions = None,
                occupiedArea = \<lparr>Area_position = \<lparr>Point_x = 3, Point_y = 100\<rparr>,
                                Area_dimensions = \<lparr>width = 95, height = 62\<rparr>\<rparr>\<rparr>,
      position = pos,
      zIndex = 101,
      removeOnHit = True,
      hitScoreIncrement = (case hit of None \<Rightarrow> 1 | Some h \<Rightarrow> h)\<rparr>"

definition isEnemy :: "nonPlayerEntity \<Rightarrow> bool" where
  "isEnemy entity = (case entity of EnemyE e \<Rightarrow> True | _ \<Rightarrow> False)"

definition isDiamond :: "nonPlayerEntity \<Rightarrow> bool" where
  "isDiamond entity = (case entity of DiamondE d \<Rightarrow> True | _ \<Rightarrow> False)"


text \<open>The loop of \<open>placeDiamonds\<close> draws indices until \<open>numberOfDiamonds\<close> different ones
  are placed; nothing bounds the number of draws. \<open>randBetween(0, roadCells.length)\<close> can
  return \<open>roadCells.length\<close>, where the read of the cell is \<open>undefined\<close> and its
  \<open>position\<close> throws.\<close>

partial_function (option) placeDiamondsLoop ::
  "BoardGrid \<Rightarrow> nat \<Rightarrow> BoardGridCell list \<Rightarrow> int list \<Rightarrow> nonPlayerEntity list \<Rightarrow> real stream
     \<Rightarrow> (error + nonPlayerEntity list \<times> real stream) option" where
  "placeDiamondsLoop g n roadCells indices entities rs =
     (if length indices < n then
        (let index = randBetween 0 (of_nat (length roadCells)) (fst (Math_random rs));
             rs' = snd (Math_random rs)
         in if index \<notin> set indices then
              (case js_index roadCells index of
                 Val cell \<Rightarrow>
                   (case moveToCell g (row (cellGridPosition cell)) (column (cellGridPosition cell))
                           (Diamond_new (position cell) (Some 1)) of
                      Inl e \<Rightarrow> Some (Inl e)
                    | Inr diamond \<Rightarrow>
                        placeDiamondsLoop g n roadCells (index # indices)
                          (entities @ [DiamondE diamond]) rs')
               | Undefined \<Rightarrow> Some (Inl TypeError)
               | Null \<Rightarrow> Some (Inl TypeError))
            else placeDiamondsLoop g n roadCells indices entities rs')
      else Some (Inr (entities, rs)))"

declare placeDiamondsLoop.simps [code]

text \<open>\<open>placeDiamonds\<close>. Its first statement calls, for every Diamond already in the
  collection, a callback whose \<open>this\<close> is \<open>undefined\<close>, which throws a TypeError.\<close>

definition placeDiamonds ::
  "BoardGrid \<Rightarrow> nat \<Rightarrow> nonPlayerEntity list \<Rightarrow> real stream
     \<Rightarrow> (error + nonPlayerEntity list \<times> real stream) option" where
  "placeDiamonds g n entities rs =
     (if list_ex isDiamond entities then Some (Inl TypeError)
      else
        (let roadCells = filter (\<lambda>cell. cellType cell = ''road'') (cells g)
         in if n > length roadCells
            then Some (Inl (Error ''not enough space on board to place all diamonds''))
            else placeDiamondsLoop g n roadCells [] entities rs))"

definition respawnPlayer :: "Board \<Rightarrow> bool \<Rightarrow> error + Board" where
  "respawnPlayer b keepScore =
     (let oldScore = score (player b)
      in case Player_new (grid b) of
           Inl e \<Rightarrow> Inl e
         | Inr p \<Rightarrow> Inr (b\<lparr>player := (if keepScore then p\<lparr>score := oldScore\<rparr> else p)\<rparr>))"

definition roadRowIndices :: "string list \<Rightarrow> int list" where
  "roadRowIndices tys =
     filter (\<lambda>i. i \<noteq> - 1)
       (map (\<lambda>(ty, i). if ty = ''road'' then i else - 1) (zip tys (map int [0..<length tys])))"

definition spawnEnemy :: "Board \<Rightarrow> real stream \<Rightarrow> error + Board \<times> real stream" where
  "spawnEnemy b rs =
     (let direction = (if randBetween 0 1 (fst (Math_random rs)) = 1 then 1 else - 1 :: int);
          rs1 = snd (Math_random rs)
      in case BoardGrid_rowTypes (grid b) of
           Inl e \<Rightarrow> Inl e
         | Inr tys \<Rightarrow>
             (let roadIndex =
                    randBetween 0 (of_int (int (length (roadRowIndices tys)) - 1))
                      (fst (Math_random rs1));
                  rs2 = snd (Math_random rs1);
                  cellRowIndex = js_index (roadRowIndices tys) roadIndex;
                  cellColumnIndex = (if direction = 1 then 0 else numberOfColumns (grid b) - 1);
                  speed =
                    randBetween (of_int direction * range_min (enemyIncrementRange b))
                      (of_int direction * range_max (enemyIncrementRange b))
                      (fst (Math_random rs2));
                  rs3 = snd (Math_random rs2)
              in case Enemy_new (grid b) (- 2) False \<lparr>inc_x = of_int speed, inc_y = 0\<rparr> of
                   Inl e \<Rightarrow> Inl e
                 | Inr enemy \<Rightarrow>
                     (case cellRowIndex of
                        Val r \<Rightarrow>
                          (case moveToCell (grid b) r cellColumnIndex enemy of
                             Inl e \<Rightarrow> Inl e
                           | Inr placed \<Rightarrow>
                               (case Entity_area placed of
                                  Inl e \<Rightarrow> Inl e
                                | Inr ar \<Rightarrow>
                                    (let shift =
                                           (if direction = 1
                                            then - 1 * (Area_width ar -
                                                   (Point_x (Area_topRight ar) -
                                                    Point_x (Area_topRight (Entity_occupiedArea placed))))
                                            else Area_width ar -
                                                   (Point_x (Area_topLeft ar) -
                                                    Point_x (Area_topLeft (Entity_occupiedArea placed))));
                                         outside = placed\<lparr>position := Point_offset (position placed) shift 0\<rparr>
                                     in Inr (b\<lparr>nonPlayerEntities :=
                                                nonPlayerEntities b @ [EnemyE outside]\<rparr>, rs3))))
                      | Undefined \<Rightarrow> Inl TypeError
                      | Null \<Rightarrow> Inl TypeError)))"

fun spawnEnemies :: "nat \<Rightarrow> Board \<times> real stream \<Rightarrow> error + Board \<times> real stream" where
  "spawnEnemies 0 s = Inr s"
| "spawnEnemies (Suc k) (b, rs) =
     (case spawnEnemy b rs of Inl e \<Rightarrow> Inl e | Inr s' \<Rightarrow> spawnEnemies k s')"

definition respawnEnemies :: "Board \<Rightarrow> real stream \<Rightarrow> error + Board \<times> real stream" where
  "respawnEnemies b rs =
     spawnEnemies (numberOfEnemies b)
       (b\<lparr>nonPlayerEntities := filter (\<lambda>entity. \<not> isEnemy entity) (nonPlayerEntities b)\<rparr>, rs)"

text \<open>\<open>new Board({...})\<close>: the grid, its cells as the first entities, the diamonds, the
  player, the enemies. \<open>None\<close> is a construction that never returns.\<close>

definition Board_new :: "BoardConfig \<Rightarrow> real stream \<Rightarrow> (error + Board \<times> real stream) option" where
  "Board_new cfg rs =
     (case BoardGrid_new (cfg_cellVisualTemplate cfg) (cfg_numberOfColumns cfg) (cfg_rowTypes cfg) of
        Inl e \<Rightarrow> Some (Inl e)
      | Inr g \<Rightarrow>
          (case placeDiamonds g (cfg_numberOfDiamonds cfg) (map CellE (cells g)) rs of
             None \<Rightarrow> None
           | Some (Inl e) \<Rightarrow> Some (Inl e)
           | Some (Inr (entities, rs1)) \<Rightarrow>
               (case Player_new g of
                  Inl e \<Rightarrow> Some (Inl e)
                | Inr p \<Rightarrow>
                    Some (respawnEnemies
                      \<lparr>numberOfEnemies = cfg_numberOfEnemies cfg,
                       numberOfDiamonds = cfg_numberOfDiamonds cfg,
                       enemyIncrementRange = cfg_enemyIncrementRange cfg,
                       cellVisualTemplate = cfg_cellVisualTemplate cfg,
                       grid = g,
                       nonPlayerEntities = entities,
                       player = p\<rparr> rs1))))"

subsection \<open>The update pass\<close>

definition entityHitScoreIncrement :: "nonPlayerEntity \<Rightarrow> int" where
  "entityHitScoreIncrement entity =
     (case entity of
        CellE c \<Rightarrow> hitScoreIncrement c | DiamondE d \<Rightarrow> hitScoreIncrement d
      | EnemyE e \<Rightarrow> hitScoreIncrement e | PropE q \<Rightarrow> hitScoreIncrement q)"

definition entityRemoveOnHit :: "nonPlayerEntity \<Rightarrow> bool" where
  "entityRemoveOnHit entity =
     (case entity of
        CellE c \<Rightarrow> removeOnHit c | DiamondE d \<Rightarrow> removeOnHit d
      | EnemyE e \<Rightarrow> removeOnHit e | PropE q \<Rightarrow> removeOnHit q)"

definition playerTouches :: "Player \<Rightarrow> nonPlayerEntity \<Rightarrow> bool" where
  "playerTouches p entity =
     (case entity of
        CellE c \<Rightarrow> touches p c | DiamondE d \<Rightarrow> touches p d
      | EnemyE e \<Rightarrow> touches p e | PropE q \<Rightarrow> touches p q)"

text \<open>\<open>xs.splice(index, 1)\<close>: the element at \<open>index\<close> leaves, the order of the rest stays.\<close>

definition splice1 :: "nat \<Rightarrow> 'a list \<Rightarrow> 'a list" where
  "splice1 index xs = take index xs @ drop (Suc index) xs"

text \<open>The first \<open>if\<close> of the loop body of \<open>update\<close>, entered when the player touches the
  entity at \<open>index\<close>.\<close>

definition onTouch :: "Board \<Rightarrow> nat \<Rightarrow> nonPlayerEntity \<Rightarrow> error + Board" where
  "onTouch b index entity =
     (let b1 = b\<lparr>player := (player b)\<lparr>score := score (player b) + entityHitScoreIncrement entity\<rparr>\<rparr>;
          b2 = (if entityRemoveOnHit entity
                then b1\<lparr>nonPlayerEntities := splice1 index (nonPlayerEntities b1)\<rparr> else b1)
      in case entity of
           EnemyE e \<Rightarrow>
             (case bleed b2 (inc_x (moveIncrement e)) of
                Inl err \<Rightarrow> Inl err
              | Inr b3 \<Rightarrow> respawnPlayer b3 True)
         | CellE c \<Rightarrow> (if cellType c = ''water'' then respawnPlayer b2 True else Inr b2)
         | DiamondE d \<Rightarrow> Inr b2
         | PropE q \<Rightarrow> Inr b2)"

text \<open>The second \<open>if\<close> of the loop body: an enemy moves, and one that has left the board is
  replaced. \<open>entity.update(dt)\<close> changes the enemy object itself, which is still the element
  at \<open>index\<close> unless the first \<open>if\<close> spliced it out (\<open>inPlace\<close>).\<close>

definition onEnemy ::
  "Board option \<Rightarrow> real \<Rightarrow> nat \<Rightarrow> bool \<Rightarrow> Enemy \<Rightarrow> Board \<times> real stream
     \<Rightarrow> error + Board \<times> real stream" where
  "onEnemy globalBoard dt index inPlace e s =
     (case s of (b, rs) \<Rightarrow>
        (case Enemy_update globalBoard (grid b) dt e of
           Inl err \<Rightarrow> Inl err
         | Inr e' \<Rightarrow>
             (let b1 = (if inPlace
                        then b\<lparr>nonPlayerEntities := (nonPlayerEntities b)[index := EnemyE e']\<rparr>
                        else b)
              in if respawnOnNextUpdate e'
                 then spawnEnemy (b1\<lparr>nonPlayerEntities := splice1 index (nonPlayerEntities b1)\<rparr>) rs
                 else Inr (b1, rs))))"

text \<open>One turn of the loop of \<open>update\<close>, for the loop variable \<open>index\<close>.\<close>

definition updateEntity ::
  "Board option \<Rightarrow> real \<Rightarrow> nat \<Rightarrow> Board \<times> real stream \<Rightarrow> error + Board \<times> real stream" where
  "updateEntity globalBoard dt index s =
     (case s of (b, rs) \<Rightarrow>
        (case js_index (nonPlayerEntities b) (int index) of
           Val entity \<Rightarrow>
             (let touched = playerTouches (player b) entity
              in case (if touched then onTouch b index entity else Inr b) of
                   Inl err \<Rightarrow> Inl err
                 | Inr b' \<Rightarrow>
                     (case entity of
                        EnemyE e \<Rightarrow>
                          onEnemy globalBoard dt index (\<not> (touched \<and> removeOnHit e)) e (b', rs)
                      | CellE c \<Rightarrow> Inr (b', rs)
                      | DiamondE d \<Rightarrow> Inr (b', rs)
                      | PropE q \<Rightarrow> Inr (b', rs)))
         | Undefined \<Rightarrow> Inl TypeError
         | Null \<Rightarrow> Inl TypeError))"

text \<open>\<open>update(dt)\<close>: the loop runs \<open>index\<close> from \<open>nonPlayerEntities.length - 1\<close> down to 0;
  \<open>updateLoop\<close> takes the number of indices still to visit.\<close>

fun updateLoop ::
  "Board option \<Rightarrow> real \<Rightarrow> nat \<Rightarrow> Board \<times> real stream \<Rightarrow> error + Board \<times> real stream" where
  "updateLoop globalBoard dt 0 s = Inr s"
| "updateLoop globalBoard dt (Suc index) s =
     (case updateEntity globalBoard dt index s of
        Inl e \<Rightarrow> Inl e
      | Inr s' \<Rightarrow> updateLoop globalBoard dt index s')"

definition Board_update ::
  "Board option \<Rightarrow> real \<Rightarrow> Board \<times> real stream \<Rightarrow> error + Board \<times> real stream" where
  "Board_update globalBoard dt s =
     updateLoop globalBoard dt (length (nonPlayerEntities (fst s))) s"

text \<open>
  What engine.js does with the board once it is built: every animation frame calls
  \<open>update(dt)\<close> with the time since the frame before, and every key that is released calls
  \<open>board.player.moveInGrid\<close> with the direction of the key (\<open>undefined\<close>, here any other
  string, for a key that is not an arrow). A run ends at the first \<open>update\<close> that throws.
\<close>

datatype event = Frame real | KeyUp string

fun Board_run ::
  "Board option \<Rightarrow> event list \<Rightarrow> Board \<times> real stream \<Rightarrow> error + Board \<times> real stream" where
  "Board_run globalBoard [] s = Inr s"
| "Board_run globalBoard (Frame dt # events) s =
     (case Board_update globalBoard dt s of
        Inl e \<Rightarrow> Inl e
      | Inr s' \<Rightarrow> Board_run globalBoard events s')"
| "Board_run globalBoard (KeyUp direction # events) s =
     Board_run globalBoard events
       ((fst s)\<lparr>player := snd (moveInGrid (grid (fst s)) (player (fst s)) direction)\<rparr>, snd s)"

definition enemyCount :: "Board \<Rightarrow> nat" where
  "enemyCount b = length (filter isEnemy (nonPlayerEntities b))"

section \<open>A small board\<close>

text \<open>
  The cell template that \<open>init\<close> of engine.js builds (its occupied area is written there;
  101 by 171 pixels stands for the size of the image), a grid of three rows and two columns
  built from it, the player as the constructor places it, and an enemy as \<open>spawnEnemy\<close>
  constructs one.
\<close>

definition engineTemplate :: EntityVisual where
  "engineTemplate =
     \<lparr>sprite = ''images/road.png'',
      dimensions = Some \<lparr>width = 101, height = 171\<rparr>,
      occupiedArea = \<lparr>Area_position = \<lparr>Point_x = 0, Point_y = 52\<rparr>,
                      Area_dimensions = \<lparr>width = 101, height = 83\<rparr>\<rparr>\<rparr>"

definition exampleGrid :: BoardGrid where
  "exampleGrid = projr (BoardGrid_new engineTemplate 2 [''water'', ''road'', ''grass''])"

definition examplePlayer :: Player where
  "examplePlayer = projr (Player_new exampleGrid)"

definition exampleEnemy :: Enemy where
  "exampleEnemy = projr (Enemy_new exampleGrid (- 2) False \<lparr>inc_x = 275, inc_y = 0\<rparr>)"

text \<open>
  A configuration with that grid, one enemy and no diamond; the board its constructor has
  built when it starts to spawn enemies, and the board it returns when every call of
  \<open>Math.random()\<close> returns 1/2; a board on which an enemy overlaps the player, and one on
  which a diamond does.
\<close>

definition exampleConfig :: BoardConfig where
  "exampleConfig =
     \<lparr>cfg_numberOfColumns = 2,
      cfg_rowTypes = [''water'', ''road'', ''grass''],
      cfg_numberOfEnemies = 1,
      cfg_numberOfDiamonds = 0,
      cfg_enemyIncrementRange = \<lparr>range_min = 50, range_max = 500\<rparr>,
      cfg_cellVisualTemplate = engineTemplate\<rparr>"

definition boardWithoutEnemies :: Board where
  "boardWithoutEnemies =
     \<lparr>numberOfEnemies = 1,
      numberOfDiamonds = 0,
      enemyIncrementRange = \<lparr>range_min = 50, range_max = 500\<rparr>,
      cellVisualTemplate = engineTemplate,
      grid = exampleGrid,
      nonPlayerEntities = map CellE (cells exampleGrid),
      player = examplePlayer\<rparr>"

definition exampleBoard :: Board where
  "exampleBoard = fst (projr (the (Board_new exampleConfig (sconst (1 / 2)))))"












section \<open>What holds of a constructed grid\<close>

text \<open>
  The occupied area that the constructor of BoardGridCell gives every cell; what the
  constructor of BoardGrid leaves at row \<open>r\<close>, column \<open>c\<close>; and an entity whose occupied
  area has the centre of the occupied area of a cell.
\<close>

definition cellOccupiedArea :: Area where
  "cellOccupiedArea = \<lparr>Area_position = \<lparr>Point_x = 0, Point_y = 52\<rparr>, Area_dimensions = \<lparr>width = 101, height = 83\<rparr>\<rparr>"

definition cellOk :: "EntityVisual \<Rightarrow> string \<Rightarrow> int \<Rightarrow> int \<Rightarrow> BoardGridCell \<Rightarrow> bool" where
  "cellOk tmpl ty r c cell =
     (cellType cell = ty \<and> cellGridPosition cell = \<lparr>row = r, column = c\<rparr> \<and>
      position cell = calculateCellPosition tmpl r c \<and>
      occupiedArea (visual cell) = cellOccupiedArea)"

definition gridOk :: "BoardGrid \<Rightarrow> bool" where
  "gridOk g =
     (length (rows g) = length (grid_rowTypes g) \<and>
      (\<forall>i < length (grid_rowTypes g).
         length (rows g ! i) = nat (numberOfColumns g) \<and>
         (\<forall>k < nat (numberOfColumns g).
            \<exists>cell. rows g ! i ! k = Val cell \<and>
              cellOk (grid_cellVisualTemplate g) (grid_rowTypes g ! i) (int i) (int k) cell)))"

definition centredOnCell :: "BoardGrid \<Rightarrow> 'a Entity_scheme \<Rightarrow> int \<Rightarrow> int \<Rightarrow> bool" where
  "centredOnCell g e r c =
     (case getCell g r c of
        Inr (Val cell) \<Rightarrow> Area_center (Entity_occupiedArea e) = Area_center (Entity_occupiedArea cell)
      | _ \<Rightarrow> False)"

text \<open>
  The numbers \<open>Math.random()\<close> returns lie in [0, 1). A grid on which \<open>spawnEnemy\<close> can
  work has a road row and a cell template with dimensions. \<open>enemyPlaced\<close> is the enemy
  that \<open>spawnEnemy\<close> appends, given the dimensions of the template, the speed drawn, the
  direction and the boundary cell of the row drawn; \<open>bloodProp\<close> is the Prop that \<open>bleed\<close>
  appends. \<open>Board_inv\<close> holds of every board the constructor returns and is kept by
  \<open>update\<close> and by the moves of the player: the grid is as constructed and has a cell, and
  every enemy in the collection may leave the board, is not removed when hit, and lives on a
  grid that can spawn another.
\<close>

definition randomOk :: "real stream \<Rightarrow> bool" where
  "randomOk rs = (\<forall>u \<in> sset rs. 0 \<le> u \<and> u < 1)"

definition spawnReady :: "BoardGrid \<Rightarrow> bool" where
  "spawnReady g =
     (''road'' \<in> set (grid_rowTypes g) \<and> dimensions (grid_cellVisualTemplate g) \<noteq> None)"

definition enemyPlaced :: "Dimensions \<Rightarrow> int \<Rightarrow> bool \<Rightarrow> BoardGridCell \<Rightarrow> Enemy" where
  "enemyPlaced d speed rightwards cell =
     \<lparr>visual = \<lparr>sprite = (if (of_int speed :: real) \<ge> 0 then ''images/enemy-right.png''
                           else ''images/enemy-left.png''),
                dimensions = Some d,
                occupiedArea = \<lparr>Area_position = \<lparr>Point_x = 2, Point_y = 102\<rparr>,
                                Area_dimensions = \<lparr>width = 96, height = 42\<rparr>\<rparr>\<rparr>,
      position =
        \<lparr>Point_x = (if rightwards
                    then Point_x (Area_center (Entity_occupiedArea cell)) - 148
                    else Point_x (Area_center (Entity_occupiedArea cell)) + width d - 48),
         Point_y = Point_y (Area_center (Entity_occupiedArea cell)) - 123\<rparr>,
      zIndex = 200,
      removeOnHit = False,
      hitScoreIncrement = - 2,
      canMoveOutsideBoard = True,
      moveIncrement = \<lparr>inc_x = of_int speed, inc_y = 0\<rparr>,
      respawnOnNextUpdate = False\<rparr>"

definition bloodProp :: "Dimensions \<Rightarrow> real \<Rightarrow> Point \<Rightarrow> Prop" where
  "bloodProp d direction pos =
     \<lparr>visual = \<lparr>sprite = (if direction \<ge> 0 then ''images/blood-right.png'' else ''images/blood-left.png''),
                dimensions = Some d,
                occupiedArea = \<lparr>Area_position = \<lparr>Point_x = 0, Point_y = 0\<rparr>, Area_dimensions = d\<rparr>\<rparr>,
      position = pos, zIndex = 100, removeOnHit = False, hitScoreIncrement = 0\<rparr>"

definition Board_inv :: "Board \<Rightarrow> bool" where
  "Board_inv b =
     (gridOk (grid b) \<and> 1 \<le> numberOfColumns (grid b) \<and> grid_rowTypes (grid b) \<noteq> [] \<and>
      (\<forall>e. EnemyE e \<in> set (nonPlayerEntities b) \<longrightarrow>
           canMoveOutsideBoard e \<and> \<not> removeOnHit e \<and> spawnReady (grid b)))"



section \<open>The grid after construction\<close>

lemma BoardGridCell_new_cellOk:
  "BoardGridCell_new tmpl ty gp z = Inr cell \<Longrightarrow> cellOk tmpl ty r c (placeInGrid tmpl cell r c)"
  by (auto simp: BoardGridCell_new_def placeInGrid_def cellOk_def cellOccupiedArea_def split: sum.splits)

lemma populateRow_Inr:
  "populateRow tmpl ty z r cs = Inr cellRow \<Longrightarrow>
     length cellRow = length cs \<and> (\<forall>k < length cs. cellOk tmpl ty r (int (cs ! k)) (cellRow ! k))"
proof (induction cs arbitrary: cellRow)
  case Nil
  then show ?case by simp
next
  case (Cons c cs)
  from Cons.prems obtain cell rest where
    c: "BoardGridCell_new tmpl ty \<lparr>row = 0, column = 0\<rparr> z = Inr cell" and
    r: "populateRow tmpl ty z r cs = Inr rest" and
    e: "cellRow = placeInGrid tmpl cell r (int c) # rest"
    by (auto split: sum.splits)
  from Cons.IH[OF r] have ih: "length rest = length cs"
    "\<And>k. k < length cs \<Longrightarrow> cellOk tmpl ty r (int (cs ! k)) (rest ! k)" by auto
  show ?case
  proof (intro conjI allI impI)
    show "length cellRow = length (c # cs)" using e ih by simp
  next
    fix k assume "k < length (c # cs)"
    then show "cellOk tmpl ty r (int ((c # cs) ! k)) (cellRow ! k)"
      using e ih(2) BoardGridCell_new_cellOk[OF c] by (cases k) auto
  qed
qed

lemma populateRows_Inr:
  "populateRows tmpl n z r0 tys = Inr cellRows \<Longrightarrow>
     length cellRows = length tys \<and>
     (\<forall>i < length tys. length (cellRows ! i) = nat n \<and>
        (\<forall>k < nat n. cellOk tmpl (tys ! i) (int (r0 + i)) (int k) (cellRows ! i ! k)))"
proof (induction tys arbitrary: z r0 cellRows)
  case Nil
  then show ?case by simp
next
  case (Cons ty tys)
  from Cons.prems obtain cellRow rest where
    c: "populateRow tmpl ty (z + int r0) (int r0) [0..<nat n] = Inr cellRow" and
    r: "populateRows tmpl n (z + int r0) (Suc r0) tys = Inr rest" and
    e: "cellRows = cellRow # rest"
    by (auto split: sum.splits)
  from populateRow_Inr[OF c] have row: "length cellRow = nat n"
    "\<And>k. k < nat n \<Longrightarrow> cellOk tmpl ty (int r0) (int k) (cellRow ! k)" by auto
  from Cons.IH[OF r] have ih: "length rest = length tys"
    "\<And>i. i < length tys \<Longrightarrow> length (rest ! i) = nat n \<and>
        (\<forall>k < nat n. cellOk tmpl (tys ! i) (int (Suc r0 + i)) (int k) (rest ! i ! k))" by auto
  show ?case
  proof (intro conjI allI impI)
    show "length cellRows = length (ty # tys)" using e ih by simp
  next
    fix i assume "i < length (ty # tys)"
    then show "length (cellRows ! i) = nat n" using e row ih(2) by (cases i) auto
  next
    fix i k assume "i < length (ty # tys)" "k < nat n"
    then show "cellOk tmpl ((ty # tys) ! i) (int (r0 + i)) (int k) (cellRows ! i ! k)"
      using e row(2) ih(2) by (cases i) auto
  qed
qed

lemma BoardGrid_new_Inr:
  assumes "BoardGrid_new tmpl n tys = Inr g"
  shows "gridOk g" and "grid_rowTypes g = tys" and "numberOfColumns g = n"
    and "grid_cellVisualTemplate g = tmpl"
    and "grid_occupiedArea g =
           \<lparr>Area_position = Area_position (occupiedArea tmpl),
            Area_dimensions = \<lparr>width = width (Area_dimensions (occupiedArea tmpl)) * of_int n,
                               height = height (Area_dimensions (occupiedArea tmpl)) * of_int (int (length tys))\<rparr>\<rparr>"
    and "tys \<noteq> [] \<Longrightarrow> 0 \<le> n"
proof -
  from assms obtain cellRows where
    p: "populateRows tmpl n 0 0 tys = Inr cellRows" and
    g: "g = \<lparr>numberOfColumns = n, grid_rowTypes = tys, rows = map (map Val) cellRows,
             grid_cellVisualTemplate = tmpl,
             grid_occupiedArea =
               \<lparr>Area_position = Area_position (occupiedArea tmpl),
                Area_dimensions = \<lparr>width = Area_width (occupiedArea tmpl) * of_int n,
                                   height = Area_height (occupiedArea tmpl) * of_int (int (length tys))\<rparr>\<rparr>,
             cells = concat cellRows\<rparr>" and
    n: "\<not> (tys \<noteq> [] \<and> n < 0)"
    by (auto simp: BoardGrid_new_def split: if_splits sum.splits)
  from populateRows_Inr[OF p] have pr: "length cellRows = length tys"
    "\<And>i. i < length tys \<Longrightarrow> length (cellRows ! i) = nat n"
    "\<And>i k. i < length tys \<Longrightarrow> k < nat n \<Longrightarrow> cellOk tmpl (tys ! i) (int i) (int k) (cellRows ! i ! k)"
    by auto
  show "gridOk g" using pr by (simp add: gridOk_def g)
  show "grid_rowTypes g = tys" "numberOfColumns g = n" "grid_cellVisualTemplate g = tmpl"
    by (simp_all add: g)
  show "grid_occupiedArea g =
           \<lparr>Area_position = Area_position (occupiedArea tmpl),
            Area_dimensions = \<lparr>width = width (Area_dimensions (occupiedArea tmpl)) * of_int n,
                               height = height (Area_dimensions (occupiedArea tmpl)) * of_int (int (length tys))\<rparr>\<rparr>"
    by (simp add: g Area_width_def Area_height_def)
  show "tys \<noteq> [] \<Longrightarrow> 0 \<le> n" using n by auto
qed

lemma gridOk_getCell:
  assumes "gridOk g" and "hasCell g r c"
  shows "\<exists>cell. getCell g r c = Inr (Val cell) \<and> rows g ! nat r ! nat c = Val cell \<and>
           cellOk (grid_cellVisualTemplate g) (grid_rowTypes g ! nat r) r c cell"
proof -
  from assms(2) have b: "0 \<le> r" "nat r < length (grid_rowTypes g)" "0 \<le> c" "nat c < nat (numberOfColumns g)"
    by (auto simp: hasCell_def numberOfRows_def)
  from assms(1) b obtain cell where
    l: "length (rows g) = length (grid_rowTypes g)" "length (rows g ! nat r) = nat (numberOfColumns g)" and
    c: "rows g ! nat r ! nat c = Val cell"
       "cellOk (grid_cellVisualTemplate g) (grid_rowTypes g ! nat r) (int (nat r)) (int (nat c)) cell"
    unfolding gridOk_def by blast
  show ?thesis using b l c by (auto simp: getCell_def js_index_def)
qed

lemma gridOk_getCell_row_out:
  assumes "gridOk g" and "r < 0 \<or> numberOfRows g \<le> r"
  shows "getCell g r c = Inl TypeError"
  using assms by (auto simp: gridOk_def getCell_def js_index_def numberOfRows_def)

lemma gridOk_getCell_column_out:
  assumes "gridOk g" and "0 \<le> r" and "r < numberOfRows g" and "c < 0 \<or> numberOfColumns g \<le> c"
  shows "getCell g r c = Inr Undefined"
proof -
  from assms have "nat r < length (grid_rowTypes g)" by (simp add: numberOfRows_def)
  with assms(1) have "length (rows g) = length (grid_rowTypes g)" "length (rows g ! nat r) = nat (numberOfColumns g)"
    unfolding gridOk_def by blast+
  then show ?thesis using assms by (auto simp: getCell_def js_index_def numberOfRows_def)
qed

section \<open>Snapping to a cell\<close>

lemma moveToCell_Val:
  assumes "getCell g r c = Inr (Val cell)"
  shows "moveToCell g r c e =
     Inr (e\<lparr>position :=
       \<lparr>Point_x = Point_x (Area_center (Entity_occupiedArea cell))
                    - width (Area_dimensions (occupiedArea (visual e))) / 2
                    - Point_x (Area_position (occupiedArea (visual e))),
        Point_y = Point_y (Area_center (Entity_occupiedArea cell))
                    - height (Area_dimensions (occupiedArea (visual e))) / 2
                    - Point_y (Area_position (occupiedArea (visual e)))\<rparr>\<rparr>)"
  using assms
  by (simp add: moveToCell_def Let_def Entity_occupiedArea_def Area_offset_def Point_offset_def
      Area_centerOnArea_def Area_centerOnPoint_def)

lemma moveToCell_Inr:
  assumes "moveToCell g r c e = Inr e'"
  shows "\<exists>cell q. getCell g r c = Inr (Val cell) \<and> e' = e\<lparr>position := q\<rparr> \<and>
           Area_center (Entity_occupiedArea (e\<lparr>position := q\<rparr>)) = Area_center (Entity_occupiedArea cell)"
proof -
  from assms obtain cell where c: "getCell g r c = Inr (Val cell)"
    by (auto simp: moveToCell_def split: sum.splits jsval.splits)
  define q where "q = \<lparr>Point_x = Point_x (Area_center (Entity_occupiedArea cell))
                    - width (Area_dimensions (occupiedArea (visual e))) / 2
                    - Point_x (Area_position (occupiedArea (visual e))),
        Point_y = Point_y (Area_center (Entity_occupiedArea cell))
                    - height (Area_dimensions (occupiedArea (visual e))) / 2
                    - Point_y (Area_position (occupiedArea (visual e)))\<rparr>"
  from assms moveToCell_Val[OF c, of e] have e': "e' = e\<lparr>position := q\<rparr>" by (simp add: q_def)
  have "Area_center (Entity_occupiedArea (e\<lparr>position := q\<rparr>)) = Area_center (Entity_occupiedArea cell)"
    by (simp add: q_def Entity_occupiedArea_def Area_offset_def Point_offset_def Area_center_def)
  with c e' show ?thesis by blast
qed

lemma moveToCell_hasCell:
  assumes "gridOk g" and "hasCell g r c"
  shows "\<exists>q. moveToCell g r c e = Inr (e\<lparr>position := q\<rparr>) \<and> centredOnCell g (e\<lparr>position := q\<rparr>) r c"
proof -
  from gridOk_getCell[OF assms] obtain cell where c: "getCell g r c = Inr (Val cell)" by blast
  from moveToCell_Val[OF c, of e] obtain e' where e': "moveToCell g r c e = Inr e'" by blast
  from moveToCell_Inr[OF e'] c e' show ?thesis by (auto simp: centredOnCell_def)
qed

lemma moveInGrid_refused:
  "\<not> canMoveInGrid g p direction \<Longrightarrow> moveInGrid g p direction = (Inr False, p)"
  by (simp add: moveInGrid_def)

lemma moveInGrid_left:
  assumes "gridOk g" and "hasCell g (row (gridPosition p)) (column (gridPosition p) - 1)"
  shows "\<exists>q. moveInGrid g p ''left'' =
             (Inr True, p\<lparr>gridPosition := (gridPosition p)\<lparr>column := column (gridPosition p) - 1\<rparr>, position := q\<rparr>) \<and>
           centredOnCell g (p\<lparr>gridPosition := (gridPosition p)\<lparr>column := column (gridPosition p) - 1\<rparr>, position := q\<rparr>)
             (row (gridPosition p)) (column (gridPosition p) - 1)"
proof -
  from moveToCell_hasCell[OF assms, of "p\<lparr>gridPosition := (gridPosition p)\<lparr>column := column (gridPosition p) - 1\<rparr>\<rparr>"]
  obtain q where
    "moveToCell g (row (gridPosition p)) (column (gridPosition p) - 1)
        (p\<lparr>gridPosition := (gridPosition p)\<lparr>column := column (gridPosition p) - 1\<rparr>\<rparr>) =
       Inr (p\<lparr>gridPosition := (gridPosition p)\<lparr>column := column (gridPosition p) - 1\<rparr>, position := q\<rparr>)"
    "centredOnCell g (p\<lparr>gridPosition := (gridPosition p)\<lparr>column := column (gridPosition p) - 1\<rparr>, position := q\<rparr>)
             (row (gridPosition p)) (column (gridPosition p) - 1)" by auto
  then show ?thesis using assms(2) by (auto simp: moveInGrid_def canMoveInGrid_def Let_def)
qed

section \<open>The player at its start cell\<close>

lemma exampleGrid_new: "BoardGrid_new engineTemplate 2 [''water'', ''road'', ''grass''] = Inr exampleGrid"
proof -
  have "\<exists>g. BoardGrid_new engineTemplate 2 [''water'', ''road'', ''grass''] = Inr g"
    by (simp add: BoardGrid_new_def BoardGridCell_new_def typeToSprite_def upt_conv_Cons nat_2)
  then show ?thesis by (auto simp: exampleGrid_def)
qed

lemmas exampleGrid_facts = BoardGrid_new_Inr[OF exampleGrid_new]

lemma exampleGrid_rows: "numberOfRows exampleGrid = 3" "numberOfColumns exampleGrid = 2"
  by (simp_all add: numberOfRows_def exampleGrid_facts)

lemma startColumn_bounds:
  assumes "1 \<le> n"
  shows "0 \<le> \<lceil>(of_int (n - 1) :: real) / 2\<rceil>" and "\<lceil>(of_int (n - 1) :: real) / 2\<rceil> < n"
proof -
  show "0 \<le> \<lceil>(of_int (n - 1) :: real) / 2\<rceil>" using assms by (simp add: zero_le_ceiling)
  have "(of_int (n - 1) :: real) / 2 \<le> of_int n - 1" using assms by simp
  then show "\<lceil>(of_int (n - 1) :: real) / 2\<rceil> < n" by (simp add: ceiling_less_iff)
qed

lemma playerStart_hasCell:
  assumes "1 \<le> numberOfColumns g" and "grid_rowTypes g \<noteq> []"
  shows "hasCell g (row (playerStartPosition g)) (column (playerStartPosition g))"
  using startColumn_bounds[OF assms(1)] assms(2)
  by (simp add: hasCell_def playerStartPosition_def numberOfRows_def)

lemma Player_new_ok:
  assumes "gridOk g" and "1 \<le> numberOfColumns g" and "grid_rowTypes g \<noteq> []"
  shows "\<exists>p. Player_new g = Inr p \<and> gridPosition p = playerStartPosition g \<and> score p = 0 \<and>
           centredOnCell g p (row (playerStartPosition g)) (column (playerStartPosition g))"
proof -
  from moveToCell_hasCell[OF assms(1) playerStart_hasCell[OF assms(2,3)]]
  show ?thesis unfolding Player_new_def Let_def by fastforce
qed

lemma Player_new_needs:
  assumes "gridOk g" and "Player_new g = Inr p"
  shows "1 \<le> numberOfColumns g" and "grid_rowTypes g \<noteq> []"
proof -
  from assms(2) obtain cell where
    c: "getCell g (row (playerStartPosition g)) (column (playerStartPosition g)) = Inr (Val cell)"
    unfolding Player_new_def Let_def by (auto dest: moveToCell_Inr)
  have r: "\<not> (row (playerStartPosition g) < 0 \<or> numberOfRows g \<le> row (playerStartPosition g))"
    using gridOk_getCell_row_out[OF assms(1), of "row (playerStartPosition g)" "column (playerStartPosition g)"] c
    by auto
  then show "grid_rowTypes g \<noteq> []" by (auto simp: playerStartPosition_def numberOfRows_def)
  show "1 \<le> numberOfColumns g"
  proof (rule ccontr)
    assume n: "\<not> 1 \<le> numberOfColumns g"
    then have "(of_int (numberOfColumns g - 1) :: real) / 2 \<le> 0" by simp
    then have "\<lceil>(of_int (numberOfColumns g - 1) :: real) / 2\<rceil> \<le> 0"
      by (simp add: ceiling_le_iff)
    moreover have "column (playerStartPosition g) = \<lceil>(of_int (numberOfColumns g - 1) :: real) / 2\<rceil>"
      by (simp add: playerStartPosition_def)
    ultimately have "column (playerStartPosition g) < 0 \<or> numberOfColumns g \<le> column (playerStartPosition g)"
      using n by linarith
    from gridOk_getCell_column_out[OF assms(1) _ _ this, of "row (playerStartPosition g)"] r c
    show False by auto
  qed
qed

section \<open>The geometric predicates\<close>

text \<open>
  C8. For every Area A and Point P, \<open>A.contains(P)\<close> returns true exactly when P.x lies
  between the left edge (\<open>position.x\<close>) and the right edge (\<open>position.x + width\<close>) of A and
  P.y lies between its top edge (\<open>position.y\<close>) and its bottom edge
  (\<open>position.y + height\<close>), both ends included; \<open>A.intersectsWith(P)\<close> returns what
  \<open>A.contains(P)\<close> returns.
\<close>

theorem Area_contains_point_inclusive:
  "Area_contains A (PointObj P) =
     Inr (Point_x (Area_position A) \<le> Point_x P \<and>
          Point_x P \<le> Point_x (Area_position A) + width (Area_dimensions A) \<and>
          Point_y (Area_position A) \<le> Point_y P \<and>
          Point_y P \<le> Point_y (Area_position A) + height (Area_dimensions A)) \<and>
   Area_intersectsWith A (PointObj P) = Area_contains A (PointObj P)"
  by (simp add: Area_contains_def Area_intersectsWith_def Area_containsPoint_def
      Area_topLeft_def Area_topRight_def Area_bottomLeft_def)

section \<open>Grid steps of the player\<close>

lemma moveInGrid_up:
  assumes "gridOk g" and "hasCell g (row (gridPosition p) - 1) (column (gridPosition p))"
  shows "\<exists>q. moveInGrid g p ''up'' =
             (Inr True, p\<lparr>gridPosition := (gridPosition p)\<lparr>row := row (gridPosition p) - 1\<rparr>, position := q\<rparr>) \<and>
           centredOnCell g (p\<lparr>gridPosition := (gridPosition p)\<lparr>row := row (gridPosition p) - 1\<rparr>, position := q\<rparr>)
             (row (gridPosition p) - 1) (column (gridPosition p))"
proof -
  from moveToCell_hasCell[OF assms, of "p\<lparr>gridPosition := (gridPosition p)\<lparr>row := row (gridPosition p) - 1\<rparr>\<rparr>"]
  obtain q where
    "moveToCell g (row (gridPosition p) - 1) (column (gridPosition p))
        (p\<lparr>gridPosition := (gridPosition p)\<lparr>row := row (gridPosition p) - 1\<rparr>\<rparr>) =
       Inr (p\<lparr>gridPosition := (gridPosition p)\<lparr>row := row (gridPosition p) - 1\<rparr>, position := q\<rparr>)"
    "centredOnCell g (p\<lparr>gridPosition := (gridPosition p)\<lparr>row := row (gridPosition p) - 1\<rparr>, position := q\<rparr>)
             (row (gridPosition p) - 1) (column (gridPosition p))" by auto
  then show ?thesis using assms(2) by (auto simp: moveInGrid_def canMoveInGrid_def Let_def)
qed

lemma moveInGrid_right:
  assumes "gridOk g" and "hasCell g (row (gridPosition p)) (column (gridPosition p) + 1)"
  shows "\<exists>q. moveInGrid g p ''right'' =
             (Inr True, p\<lparr>gridPosition := (gridPosition p)\<lparr>column := column (gridPosition p) + 1\<rparr>, position := q\<rparr>) \<and>
           centredOnCell g (p\<lparr>gridPosition := (gridPosition p)\<lparr>column := column (gridPosition p) + 1\<rparr>, position := q\<rparr>)
             (row (gridPosition p)) (column (gridPosition p) + 1)"
proof -
  from moveToCell_hasCell[OF assms, of "p\<lparr>gridPosition := (gridPosition p)\<lparr>column := column (gridPosition p) + 1\<rparr>\<rparr>"]
  obtain q where
    "moveToCell g (row (gridPosition p)) (column (gridPosition p) + 1)
        (p\<lparr>gridPosition := (gridPosition p)\<lparr>column := column (gridPosition p) + 1\<rparr>\<rparr>) =
       Inr (p\<lparr>gridPosition := (gridPosition p)\<lparr>column := column (gridPosition p) + 1\<rparr>, position := q\<rparr>)"
    "centredOnCell g (p\<lparr>gridPosition := (gridPosition p)\<lparr>column := column (gridPosition p) + 1\<rparr>, position := q\<rparr>)
             (row (gridPosition p)) (column (gridPosition p) + 1)" by auto
  then show ?thesis using assms(2) by (auto simp: moveInGrid_def canMoveInGrid_def Let_def)
qed

lemma moveInGrid_down:
  assumes "gridOk g" and "hasCell g (row (gridPosition p) + 1) (column (gridPosition p))"
  shows "\<exists>q. moveInGrid g p ''down'' =
             (Inr True, p\<lparr>gridPosition := (gridPosition p)\<lparr>row := row (gridPosition p) + 1\<rparr>, position := q\<rparr>) \<and>
           centredOnCell g (p\<lparr>gridPosition := (gridPosition p)\<lparr>row := row (gridPosition p) + 1\<rparr>, position := q\<rparr>)
             (row (gridPosition p) + 1) (column (gridPosition p))"
proof -
  from moveToCell_hasCell[OF assms, of "p\<lparr>gridPosition := (gridPosition p)\<lparr>row := row (gridPosition p) + 1\<rparr>\<rparr>"]
  obtain q where
    "moveToCell g (row (gridPosition p) + 1) (column (gridPosition p))
        (p\<lparr>gridPosition := (gridPosition p)\<lparr>row := row (gridPosition p) + 1\<rparr>\<rparr>) =
       Inr (p\<lparr>gridPosition := (gridPosition p)\<lparr>row := row (gridPosition p) + 1\<rparr>, position := q\<rparr>)"
    "centredOnCell g (p\<lparr>gridPosition := (gridPosition p)\<lparr>row := row (gridPosition p) + 1\<rparr>, position := q\<rparr>)
             (row (gridPosition p) + 1) (column (gridPosition p))" by auto
  then show ?thesis using assms(2) by (auto simp: moveInGrid_def canMoveInGrid_def Let_def)
qed

lemma examplePlayer_eq:
  "Player_new exampleGrid = Inr examplePlayer"
  "gridPosition examplePlayer = \<lparr>row = 2, column = 1\<rparr>"
proof -
  have "1 \<le> numberOfColumns exampleGrid" "grid_rowTypes exampleGrid \<noteq> []"
    by (simp_all add: exampleGrid_facts)
  from Player_new_ok[OF exampleGrid_facts(1) this] obtain p where
    p: "Player_new exampleGrid = Inr p" "gridPosition p = playerStartPosition exampleGrid" by blast
  have e: "examplePlayer = p" by (simp add: examplePlayer_def p)
  show "Player_new exampleGrid = Inr examplePlayer" using p e by simp
  have "\<lceil>(1::real) / 2\<rceil> = 1" by (simp add: ceiling_eq_iff)
  then show "gridPosition examplePlayer = \<lparr>row = 2, column = 1\<rparr>"
    using p e by (simp add: playerStartPosition_def exampleGrid_rows)
qed

lemma exampleEnemy_eq:
  "exampleEnemy =
     \<lparr>visual = \<lparr>sprite = ''images/enemy-right.png'',
                dimensions = Some \<lparr>width = 101, height = 171\<rparr>,
                occupiedArea = \<lparr>Area_position = \<lparr>Point_x = 2, Point_y = 102\<rparr>,
                                Area_dimensions = \<lparr>width = 96, height = 42\<rparr>\<rparr>\<rparr>,
      position = \<lparr>Point_x = 0, Point_y = 0\<rparr>, zIndex = 200, removeOnHit = False,
      hitScoreIncrement = - 2, canMoveOutsideBoard = True,
      moveIncrement = \<lparr>inc_x = 275, inc_y = 0\<rparr>, respawnOnNextUpdate = False\<rparr>"
  by (simp add: exampleEnemy_def Enemy_new_def exampleGrid_facts engineTemplate_def)

text \<open>
  C3. For a player standing on a cell of the grid: \<open>moveInGrid("left")\<close> in column 0 returns
  false and leaves the player as it was (grid position, pixel position and everything
  else); in a column greater than 0 it returns true, the column is one less, the row and all
  other fields but the pixel position are unchanged, and the centre of the occupied area of
  the player is the centre of the occupied area of the new cell. The same holds for "up"
  against row 0, for "right" against the last column and for "down" against the last row.
\<close>

theorem moveInGrid_bounds_checked:
  assumes "gridOk g" and "hasCell g (row (gridPosition p)) (column (gridPosition p))"
  shows
   "(column (gridPosition p) = 0 \<longrightarrow> moveInGrid g p ''left'' = (Inr False, p)) \<and>
    (column (gridPosition p) > 0 \<longrightarrow>
       (\<exists>q. moveInGrid g p ''left'' =
               (Inr True, p\<lparr>gridPosition := (gridPosition p)\<lparr>column := column (gridPosition p) - 1\<rparr>,
                            position := q\<rparr>) \<and>
            centredOnCell g (p\<lparr>gridPosition := (gridPosition p)\<lparr>column := column (gridPosition p) - 1\<rparr>,
                                position := q\<rparr>)
              (row (gridPosition p)) (column (gridPosition p) - 1))) \<and>
    (row (gridPosition p) = 0 \<longrightarrow> moveInGrid g p ''up'' = (Inr False, p)) \<and>
    (row (gridPosition p) > 0 \<longrightarrow>
       (\<exists>q. moveInGrid g p ''up'' =
               (Inr True, p\<lparr>gridPosition := (gridPosition p)\<lparr>row := row (gridPosition p) - 1\<rparr>,
                            position := q\<rparr>) \<and>
            centredOnCell g (p\<lparr>gridPosition := (gridPosition p)\<lparr>row := row (gridPosition p) - 1\<rparr>,
                                position := q\<rparr>)
              (row (gridPosition p) - 1) (column (gridPosition p)))) \<and>
    (column (gridPosition p) = numberOfColumns g - 1 \<longrightarrow> moveInGrid g p ''right'' = (Inr False, p)) \<and>
    (column (gridPosition p) < numberOfColumns g - 1 \<longrightarrow>
       (\<exists>q. moveInGrid g p ''right'' =
               (Inr True, p\<lparr>gridPosition := (gridPosition p)\<lparr>column := column (gridPosition p) + 1\<rparr>,
                            position := q\<rparr>) \<and>
            centredOnCell g (p\<lparr>gridPosition := (gridPosition p)\<lparr>column := column (gridPosition p) + 1\<rparr>,
                                position := q\<rparr>)
              (row (gridPosition p)) (column (gridPosition p) + 1))) \<and>
    (row (gridPosition p) = numberOfRows g - 1 \<longrightarrow> moveInGrid g p ''down'' = (Inr False, p)) \<and>
    (row (gridPosition p) < numberOfRows g - 1 \<longrightarrow>
       (\<exists>q. moveInGrid g p ''down'' =
               (Inr True, p\<lparr>gridPosition := (gridPosition p)\<lparr>row := row (gridPosition p) + 1\<rparr>,
                            position := q\<rparr>) \<and>
            centredOnCell g (p\<lparr>gridPosition := (gridPosition p)\<lparr>row := row (gridPosition p) + 1\<rparr>,
                                position := q\<rparr>)
              (row (gridPosition p) + 1) (column (gridPosition p))))"
proof -
  have l0: "column (gridPosition p) = 0 \<Longrightarrow> moveInGrid g p ''left'' = (Inr False, p)"
    by (rule moveInGrid_refused) (simp add: canMoveInGrid_def hasCell_def)
  have u0: "row (gridPosition p) = 0 \<Longrightarrow> moveInGrid g p ''up'' = (Inr False, p)"
    by (rule moveInGrid_refused) (simp add: canMoveInGrid_def hasCell_def)
  have r0: "column (gridPosition p) = numberOfColumns g - 1 \<Longrightarrow> moveInGrid g p ''right'' = (Inr False, p)"
    by (rule moveInGrid_refused) (simp add: canMoveInGrid_def hasCell_def)
  have d0: "row (gridPosition p) = numberOfRows g - 1 \<Longrightarrow> moveInGrid g p ''down'' = (Inr False, p)"
    by (rule moveInGrid_refused) (simp add: canMoveInGrid_def hasCell_def)
  have l1: "column (gridPosition p) > 0 \<Longrightarrow>
      hasCell g (row (gridPosition p)) (column (gridPosition p) - 1)"
    using assms(2) by (simp add: hasCell_def)
  have u1: "row (gridPosition p) > 0 \<Longrightarrow>
      hasCell g (row (gridPosition p) - 1) (column (gridPosition p))"
    using assms(2) by (simp add: hasCell_def)
  have r1: "column (gridPosition p) < numberOfColumns g - 1 \<Longrightarrow>
      hasCell g (row (gridPosition p)) (column (gridPosition p) + 1)"
    using assms(2) by (simp add: hasCell_def)
  have d1: "row (gridPosition p) < numberOfRows g - 1 \<Longrightarrow>
      hasCell g (row (gridPosition p) + 1) (column (gridPosition p))"
    using assms(2) by (simp add: hasCell_def)
  show ?thesis
    using l0 u0 r0 d0 moveInGrid_left[OF assms(1) l1] moveInGrid_up[OF assms(1) u1]
      moveInGrid_right[OF assms(1) r1] moveInGrid_down[OF assms(1) d1]
    by blast
qed

theorem moveInGrid_bounds_checked_witness:
  "gridOk exampleGrid \<and>
   hasCell exampleGrid (row (gridPosition examplePlayer)) (column (gridPosition examplePlayer)) \<and>
   gridPosition examplePlayer = \<lparr>row = 2, column = 1\<rparr> \<and>
   (\<exists>q. moveInGrid exampleGrid examplePlayer ''left'' =
           (Inr True, examplePlayer\<lparr>gridPosition := \<lparr>row = 2, column = 0\<rparr>, position := q\<rparr>) \<and>
         centredOnCell exampleGrid (examplePlayer\<lparr>gridPosition := \<lparr>row = 2, column = 0\<rparr>, position := q\<rparr>) 2 0) \<and>
   (\<exists>q. moveInGrid exampleGrid examplePlayer ''up'' =
           (Inr True, examplePlayer\<lparr>gridPosition := \<lparr>row = 1, column = 1\<rparr>, position := q\<rparr>)) \<and>
   moveInGrid exampleGrid examplePlayer ''right'' = (Inr False, examplePlayer) \<and>
   moveInGrid exampleGrid examplePlayer ''down'' = (Inr False, examplePlayer)"
proof -
  have h: "hasCell exampleGrid (row (gridPosition examplePlayer)) (column (gridPosition examplePlayer))"
    by (simp add: examplePlayer_eq hasCell_def exampleGrid_rows)
  show ?thesis
    using moveInGrid_bounds_checked[OF exampleGrid_facts(1) h] h exampleGrid_facts(1)
    by (auto simp: examplePlayer_eq exampleGrid_rows)
qed

section \<open>Free movement\<close>

text \<open>
  C9. For every player and every argument, assigning \<open>position\<close>, calling \<open>canMove\<close> and
  calling \<open>move\<close> each throw an Error, and the player is left exactly as it was (position,
  grid position and score included).
\<close>

theorem Player_free_movement_throws:
  "Player_set_position p newPosition =
     (Inl (Error ''player entities are not allowed to move freely''), p) \<and>
   Player_canMove p increment =
     (Inl (Error ''player entities are not allowed to move freely, use canMoveInGrid instead''), p) \<and>
   Player_move p increment =
     (Inl (Error ''player entities are not allowed to move freely, use moveInGrid instead''), p)"
  by (simp add: Player_set_position_def Player_canMove_def Player_move_def)

text \<open>
  C5. \<open>Actor.canMove\<close> returns true for every actor that may move outside the board. For an
  actor that may not, the claim has it return whether the offset occupied area still
  intersects the area of the owning board; the method throws instead, whatever the vector:
  a ReferenceError where the identifier \<open>board\<close> is unbound, and otherwise the Error of
  \<open>intersectsWith\<close> for an argument that is neither Point nor Area, since a Board has no
  \<open>area\<close>.
\<close>

theorem Actor_canMove_inside_board_throws:
  "Actor_canMove globalBoard (a\<lparr>canMoveOutsideBoard := True\<rparr>) increment = Inr True \<and>
   Actor_canMove globalBoard (a\<lparr>canMoveOutsideBoard := False\<rparr>) increment =
     Inl (case globalBoard of
            None \<Rightarrow> ReferenceError
          | Some board \<Rightarrow> Error ''only objects of type Point and Area are supported'')"
  by (simp add: Actor_canMove_def Board_area_def Area_intersectsWith_def split: option.splits)

section \<open>The update of an enemy\<close>

text \<open>
  C4. For every enemy whose move increment has y = 0 and every dt, \<open>update(dt)\<close> adds
  exactly \<open>moveIncrement.x * dt\<close> to \<open>position.x\<close>, leaves \<open>position.y\<close> as it was, and
  leaves \<open>respawnOnNextUpdate\<close> true exactly when \<open>someOnTheBoard\<close> is false, that is when
  \<open>intersectsWith\<close> finds the occupied area of the enemy and the occupied area of the grid
  apart. An enemy may move outside the board: its constructor says so, and nothing in the
  program changes the flag.
\<close>

theorem Enemy_update_moves_and_flags:
  assumes "canMoveOutsideBoard e" and "inc_y (moveIncrement e) = 0"
  shows "\<exists>e'. Enemy_update globalBoard g dt e = Inr e' \<and>
           Point_x (position e') = Point_x (position e) + inc_x (moveIncrement e) * dt \<and>
           Point_y (position e') = Point_y (position e) \<and>
           respawnOnNextUpdate e' = (\<not> someOnTheBoard g e') \<and>
           someOnTheBoard g e' =
             Area_intersectsWithArea (Entity_occupiedArea e') (grid_occupiedArea g)"
  using assms
  by (simp add: Enemy_update_def Actor_move_def Actor_canMove_def Point_offset_def
      someOnTheBoard_def Entity_occupiedArea_def)

theorem Enemy_update_moves_and_flags_witness:
  "canMoveOutsideBoard exampleEnemy \<and> inc_y (moveIncrement exampleEnemy) = 0 \<and>
   (\<exists>e'. Enemy_update None exampleGrid (1 / 5) exampleEnemy = Inr e' \<and>
      Point_x (position e') = 55 \<and> Point_y (position e') = 0 \<and>
      respawnOnNextUpdate e' = (\<not> someOnTheBoard exampleGrid e'))"
proof -
  have c: "canMoveOutsideBoard exampleEnemy" and y: "inc_y (moveIncrement exampleEnemy) = 0"
    by (simp_all add: exampleEnemy_eq)
  from Enemy_update_moves_and_flags[OF c y, of None exampleGrid "1 / 5"] c y
  show ?thesis by (auto simp: exampleEnemy_eq)
qed

section \<open>Reading a cell\<close>

text \<open>
  C10, as amended. For every grid the constructor returns and all integers row and column:
  where \<open>hasCell(row, column)\<close> is true, \<open>getCell(row, column)\<close> returns the cell stored at
  that position, whose grid position is (row, column); where the row is outside the grid,
  \<open>getCell\<close> throws a TypeError; where the row is inside the grid and the column is not,
  \<open>getCell\<close> throws nothing and returns \<open>undefined\<close>.
\<close>

theorem getCell_by_bounds:
  assumes "BoardGrid_new tmpl n tys = Inr g"
  shows "(hasCell g r c \<longrightarrow>
            (\<exists>cell. getCell g r c = Inr (Val cell) \<and> rows g ! nat r ! nat c = Val cell \<and>
                    cellGridPosition cell = \<lparr>row = r, column = c\<rparr>)) \<and>
         (r < 0 \<or> numberOfRows g \<le> r \<longrightarrow> getCell g r c = Inl TypeError) \<and>
         (0 \<le> r \<and> r < numberOfRows g \<and> (c < 0 \<or> numberOfColumns g \<le> c) \<longrightarrow>
            getCell g r c = Inr Undefined)"
proof (intro conjI impI)
  note ok = BoardGrid_new_Inr(1)[OF assms]
  {
    assume "hasCell g r c"
    from gridOk_getCell[OF ok this]
    show "\<exists>cell. getCell g r c = Inr (Val cell) \<and> rows g ! nat r ! nat c = Val cell \<and>
                    cellGridPosition cell = \<lparr>row = r, column = c\<rparr>"
      by (auto simp: cellOk_def)
  next
    assume "r < 0 \<or> numberOfRows g \<le> r"
    from gridOk_getCell_row_out[OF ok this] show "getCell g r c = Inl TypeError" .
  next
    assume "0 \<le> r \<and> r < numberOfRows g \<and> (c < 0 \<or> numberOfColumns g \<le> c)"
    then show "getCell g r c = Inr Undefined"
      using gridOk_getCell_column_out[OF ok, of r c] by blast
  }
qed

theorem getCell_by_bounds_witness:
  "BoardGrid_new engineTemplate 2 [''water'', ''road'', ''grass''] = Inr exampleGrid \<and>
   hasCell exampleGrid 1 1 \<and>
   (\<exists>cell. getCell exampleGrid 1 1 = Inr (Val cell) \<and>
       cellGridPosition cell = \<lparr>row = 1, column = 1\<rparr>) \<and>
   getCell exampleGrid 3 0 = Inl TypeError \<and>
   getCell exampleGrid (- 1) 0 = Inl TypeError"
  using getCell_by_bounds[OF exampleGrid_new, of 1 1] getCell_by_bounds[OF exampleGrid_new, of 3 0]
    getCell_by_bounds[OF exampleGrid_new, of "- 1" 0] exampleGrid_new
  by (auto simp: hasCell_def exampleGrid_rows)

text \<open>The claim as it was stated fails one column past the end, and one before the start,
  of the first row of the small grid.\<close>

theorem getCell_outside_columns_counterexample:
  "BoardGrid_new engineTemplate 2 [''water'', ''road'', ''grass''] = Inr exampleGrid \<and>
   \<not> hasCell exampleGrid 0 2 \<and> getCell exampleGrid 0 2 = Inr Undefined \<and>
   \<not> hasCell exampleGrid 0 (- 1) \<and> getCell exampleGrid 0 (- 1) = Inr Undefined"
  using gridOk_getCell_column_out[OF exampleGrid_facts(1), of 0 2]
    gridOk_getCell_column_out[OF exampleGrid_facts(1), of 0 "- 1"] exampleGrid_new
  by (simp add: hasCell_def exampleGrid_rows)

section \<open>Random draws and road rows\<close>

lemma randomOk_shd: "randomOk rs \<Longrightarrow> 0 \<le> shd rs \<and> shd rs < 1"
  by (simp add: randomOk_def shd_sset)

lemma randomOk_stl: "randomOk rs \<Longrightarrow> randomOk (stl rs)"
  by (auto simp: randomOk_def dest: stl_sset)

lemma randomOk_half: "randomOk (sconst (1 / 2))"
  by (simp add: randomOk_def)

lemma rowTypesOf_Inr:
  assumes "length rws = length tys"
    and "\<And>i. i < length tys \<Longrightarrow> \<exists>cell. js_index (rws ! i) 0 = Val (Val cell) \<and> cellType cell = tys ! i"
  shows "rowTypesOf rws = Inr tys"
  using assms
proof (induction rws arbitrary: tys)
  case Nil
  then show ?case by simp
next
  case (Cons rw rws)
  then obtain ty tys' where t: "tys = ty # tys'" by (cases tys) auto
  from Cons.prems(2)[of 0] t obtain cell where c: "js_index rw 0 = Val (Val cell)" "cellType cell = ty" by auto
  have "rowTypesOf rws = Inr tys'"
  proof (rule Cons.IH)
    show "length rws = length tys'" using Cons.prems(1) t by simp
    fix i assume "i < length tys'"
    then show "\<exists>cell. js_index (rws ! i) 0 = Val (Val cell) \<and> cellType cell = tys' ! i"
      using Cons.prems(2)[of "Suc i"] t by simp
  qed
  then show ?case using c t by simp
qed

lemma gridOk_rowTypes:
  assumes "gridOk g" and "1 \<le> numberOfColumns g"
  shows "BoardGrid_rowTypes g = Inr (grid_rowTypes g)"
  unfolding BoardGrid_rowTypes_def
proof (rule rowTypesOf_Inr)
  show "length (rows g) = length (grid_rowTypes g)" using assms(1) by (simp add: gridOk_def)
  fix i assume i: "i < length (grid_rowTypes g)"
  have k: "0 < nat (numberOfColumns g)" using assms(2) by simp
  from assms(1) i k obtain cell where
    "length (rows g ! i) = nat (numberOfColumns g)" "rows g ! i ! 0 = Val cell"
    "cellOk (grid_cellVisualTemplate g) (grid_rowTypes g ! i) (int i) (int 0) cell"
    unfolding gridOk_def by blast
  then show "\<exists>cell. js_index (rows g ! i) 0 = Val (Val cell) \<and> cellType cell = grid_rowTypes g ! i"
    using k by (auto simp: js_index_def cellOk_def)
qed

lemma roadRowIndices_set:
  "set (roadRowIndices tys) = {int i |i. i < length tys \<and> tys ! i = ''road''}"
proof (rule set_eqI, rule iffI)
  fix x assume "x \<in> set (roadRowIndices tys)"
  then obtain ty i where z: "(ty, i) \<in> set (zip tys (map int [0..<length tys]))"
    and x: "x = (if ty = ''road'' then i else - 1)" "x \<noteq> - 1"
    unfolding roadRowIndices_def by auto
  from z obtain k where "k < length tys" "ty = tys ! k" "i = int k"
    by (auto simp: set_zip)
  with x show "x \<in> {int i |i. i < length tys \<and> tys ! i = ''road''}"
    by (cases "ty = ''road''") auto
next
  fix x assume "x \<in> {int i |i. i < length tys \<and> tys ! i = ''road''}"
  then obtain k where k: "x = int k" "k < length tys" "tys ! k = ''road''" by blast
  then have "(tys ! k, int k) \<in> set (zip tys (map int [0..<length tys]))"
    by (simp add: set_zip) (rule exI[of _ k], simp)
  then have "(\<lambda>(ty, i). if ty = ''road'' then i else - 1) (tys ! k, int k)
               \<in> (\<lambda>(ty, i). if ty = ''road'' then i else - 1) ` set (zip tys (map int [0..<length tys]))"
    by (rule imageI)
  then have "int k \<in> set (map (\<lambda>(ty, i). if ty = ''road'' then i else - 1) (zip tys (map int [0..<length tys])))"
    using k by simp
  then show "x \<in> set (roadRowIndices tys)"
    unfolding roadRowIndices_def using k by simp
qed

lemma roadRowIndices_nonempty: "''road'' \<in> set tys \<Longrightarrow> roadRowIndices tys \<noteq> []"
proof -
  assume "''road'' \<in> set tys"
  then obtain i where "i < length tys" "tys ! i = ''road''" by (auto simp: in_set_conv_nth)
  then have "int i \<in> set (roadRowIndices tys)" unfolding roadRowIndices_set by blast
  then show ?thesis by auto
qed

lemma randBetween_index:
  assumes "0 \<le> u" and "u < 1" and "0 < n"
  shows "0 \<le> randBetween 0 (of_int (int n - 1)) u" and "randBetween 0 (of_int (int n - 1)) u < int n"
proof -
  have e: "randBetween 0 (of_int (int n - 1)) u = \<lfloor>u * real n\<rfloor>"
    unfolding randBetween_def by simp
  have "0 \<le> u * real n" using assms by simp
  then show "0 \<le> randBetween 0 (of_int (int n - 1)) u" unfolding e by simp
  have "u * real n < real n" using assms by simp
  then show "randBetween 0 (of_int (int n - 1)) u < int n" unfolding e by (simp add: floor_less_iff)
qed

lemma randBetween_right:
  assumes "1 / 2 \<le> u" and "u < 1"
  shows "randBetween 0 1 u = 1"
proof -
  have "randBetween 0 1 u = \<lfloor>u * 2\<rfloor>" by (simp add: randBetween_def)
  moreover have "\<lfloor>u * 2\<rfloor> = 1" using assms by (simp add: floor_eq_iff)
  ultimately show ?thesis by simp
qed

lemma randBetween_left:
  assumes "0 \<le> u" and "u < 1 / 2"
  shows "randBetween 0 1 u \<noteq> 1"
proof -
  have "randBetween 0 1 u = \<lfloor>u * 2\<rfloor>" by (simp add: randBetween_def)
  moreover have "\<lfloor>u * 2\<rfloor> = 0" using assms by (simp add: floor_eq_iff)
  ultimately show ?thesis by simp
qed

lemma roadRow_pick:
  assumes "''road'' \<in> set tys" and "0 \<le> u" and "u < 1"
  shows "\<exists>r. js_index (roadRowIndices tys) (randBetween 0 (of_int (int (length (roadRowIndices tys)) - 1)) u) = Val r \<and>
             0 \<le> r \<and> r < int (length tys) \<and> tys ! nat r = ''road''"
proof -
  have n: "0 < length (roadRowIndices tys)" using roadRowIndices_nonempty[OF assms(1)] by simp
  note b = randBetween_index[OF assms(2,3) n]
  define k where "k = randBetween 0 (of_int (int (length (roadRowIndices tys)) - 1)) u"
  have kb: "0 \<le> k" "k < int (length (roadRowIndices tys))" using b by (simp_all add: k_def)
  then have j: "js_index (roadRowIndices tys) k = Val (roadRowIndices tys ! nat k)"
    by (simp add: js_index_def)
  have "roadRowIndices tys ! nat k \<in> set (roadRowIndices tys)" using kb by (intro nth_mem) simp
  then obtain i where "roadRowIndices tys ! nat k = int i" "i < length tys" "tys ! i = ''road''"
    unfolding roadRowIndices_set by blast
  with j show ?thesis unfolding k_def[symmetric] by simp
qed

section \<open>Spawning an enemy\<close>

lemma spawnEnemy_at:
  assumes rt: "BoardGrid_rowTypes (grid b) = Inr tys"
    and pick: "js_index (roadRowIndices tys)
                 (randBetween 0 (of_int (int (length (roadRowIndices tys)) - 1)) (shd (stl rs))) = Val r"
    and cell: "getCell (grid b) r (if randBetween 0 1 (shd rs) = 1 then 0 else numberOfColumns (grid b) - 1)
                 = Inr (Val cell)"
    and d: "dimensions (grid_cellVisualTemplate (grid b)) = Some d"
  shows "spawnEnemy b rs =
           Inr (b\<lparr>nonPlayerEntities := nonPlayerEntities b @
                  [EnemyE (enemyPlaced d
                     (randBetween
                        (of_int (if randBetween 0 1 (shd rs) = 1 then 1 else - 1) * range_min (enemyIncrementRange b))
                        (of_int (if randBetween 0 1 (shd rs) = 1 then 1 else - 1) * range_max (enemyIncrementRange b))
                        (shd (stl (stl rs))))
                     (randBetween 0 1 (shd rs) = 1) cell)]\<rparr>,
                stl (stl (stl rs)))"
proof (cases "randBetween 0 1 (shd rs) = 1")
  case True
  with cell have c: "getCell (grid b) r 0 = Inr (Val cell)" by simp
  show ?thesis
    unfolding spawnEnemy_def Let_def Math_random_def fst_conv snd_conv rt sum.case pick jsval.case
      Enemy_new_def d option.case enemyPlaced_def
    by (simp add: True moveToCell_Val[OF c] Entity_area_def Area_new_def Entity_occupiedArea_def
        Area_offset_def Point_offset_def Area_topRight_def Area_topLeft_def Area_width_def)
next
  case False
  with cell have c: "getCell (grid b) r (numberOfColumns (grid b) - 1) = Inr (Val cell)" by simp
  show ?thesis
    unfolding spawnEnemy_def Let_def Math_random_def fst_conv snd_conv rt sum.case pick jsval.case
      Enemy_new_def d option.case enemyPlaced_def
    by (simp add: False moveToCell_Val[OF c] Entity_area_def Area_new_def Entity_occupiedArea_def
        Area_offset_def Point_offset_def Area_topRight_def Area_topLeft_def Area_width_def)
qed

lemma enemyPlaced_simps:
  "canMoveOutsideBoard (enemyPlaced d speed rw cell)" "\<not> removeOnHit (enemyPlaced d speed rw cell)"
  "hitScoreIncrement (enemyPlaced d speed rw cell) = - 2"
  "inc_y (moveIncrement (enemyPlaced d speed rw cell)) = 0"
  "Entity_occupiedArea (enemyPlaced d speed rw cell) =
     \<lparr>Area_position =
        \<lparr>Point_x = (if rw then Point_x (Area_center (Entity_occupiedArea cell)) - 146
                    else Point_x (Area_center (Entity_occupiedArea cell)) + width d - 46),
         Point_y = Point_y (Area_center (Entity_occupiedArea cell)) - 21\<rparr>,
      Area_dimensions = \<lparr>width = 96, height = 42\<rparr>\<rparr>"
  by (simp_all add: enemyPlaced_def Entity_occupiedArea_def Area_offset_def Point_offset_def)

lemma spawnEnemy_ok:
  assumes ok: "gridOk (grid b)" and n: "1 \<le> numberOfColumns (grid b)"
    and ready: "spawnReady (grid b)" and rnd: "randomOk rs"
  shows "\<exists>r cell d speed.
           spawnEnemy b rs =
             Inr (b\<lparr>nonPlayerEntities := nonPlayerEntities b @
                    [EnemyE (enemyPlaced d speed (randBetween 0 1 (shd rs) = 1) cell)]\<rparr>,
                  stl (stl (stl rs))) \<and>
           0 \<le> r \<and> r < numberOfRows (grid b) \<and> grid_rowTypes (grid b) ! nat r = ''road'' \<and>
           getCell (grid b) r (if randBetween 0 1 (shd rs) = 1 then 0 else numberOfColumns (grid b) - 1)
             = Inr (Val cell) \<and>
           dimensions (grid_cellVisualTemplate (grid b)) = Some d"
proof -
  note rt = gridOk_rowTypes[OF ok n]
  from ready obtain d where d: "dimensions (grid_cellVisualTemplate (grid b)) = Some d"
    and road: "''road'' \<in> set (grid_rowTypes (grid b))" by (auto simp: spawnReady_def)
  from randomOk_shd[OF randomOk_stl[OF rnd]] have u: "0 \<le> shd (stl rs)" "shd (stl rs) < 1" by auto
  from roadRow_pick[OF road u] obtain r where
    pick: "js_index (roadRowIndices (grid_rowTypes (grid b)))
             (randBetween 0 (of_int (int (length (roadRowIndices (grid_rowTypes (grid b)))) - 1)) (shd (stl rs))) = Val r"
    and r: "0 \<le> r" "r < int (length (grid_rowTypes (grid b)))" "grid_rowTypes (grid b) ! nat r = ''road''"
    by blast
  have "hasCell (grid b) r (if randBetween 0 1 (shd rs) = 1 then 0 else numberOfColumns (grid b) - 1)"
    using r n by (simp add: hasCell_def numberOfRows_def)
  from gridOk_getCell[OF ok this] obtain cell where
    cell: "getCell (grid b) r (if randBetween 0 1 (shd rs) = 1 then 0 else numberOfColumns (grid b) - 1)
             = Inr (Val cell)" by blast
  from spawnEnemy_at[OF rt pick cell d] r cell d show ?thesis
    unfolding numberOfRows_def by blast
qed

lemma spawnEnemy_Inr:
  assumes "spawnEnemy b rs = Inr (b', rs')"
  shows "\<exists>e. b' = b\<lparr>nonPlayerEntities := nonPlayerEntities b @ [EnemyE e]\<rparr> \<and>
             canMoveOutsideBoard e \<and> \<not> removeOnHit e \<and>
             dimensions (grid_cellVisualTemplate (grid b)) \<noteq> None"
proof -
  from assms obtain tys where rt: "BoardGrid_rowTypes (grid b) = Inr tys"
    unfolding spawnEnemy_def Let_def by (auto split: sum.splits)
  from assms rt obtain d where d: "dimensions (grid_cellVisualTemplate (grid b)) = Some d"
    unfolding spawnEnemy_def Let_def Enemy_new_def by (cases "dimensions (grid_cellVisualTemplate (grid b))") auto
  from assms obtain r where pick: "js_index (roadRowIndices tys)
                 (randBetween 0 (of_int (int (length (roadRowIndices tys)) - 1)) (shd (stl rs))) = Val r"
    unfolding spawnEnemy_def Let_def Math_random_def fst_conv snd_conv rt sum.case Enemy_new_def d option.case
    by (auto split: jsval.splits)
  have "\<exists>cell. getCell (grid b) r (if randBetween 0 1 (shd rs) = 1 then 0 else numberOfColumns (grid b) - 1)
                 = Inr (Val cell)"
  proof (cases "randBetween 0 1 (shd rs) = 1")
    case True
    with assms show ?thesis
    unfolding spawnEnemy_def Let_def Math_random_def fst_conv snd_conv rt sum.case Enemy_new_def d option.case
      pick jsval.case
      by (auto split: sum.splits dest!: moveToCell_Inr)
  next
    case False
    with assms show ?thesis
    unfolding spawnEnemy_def Let_def Math_random_def fst_conv snd_conv rt sum.case Enemy_new_def d option.case
      pick jsval.case
      by (auto split: sum.splits dest!: moveToCell_Inr)
  qed
  then obtain cell where cell: "getCell (grid b) r (if randBetween 0 1 (shd rs) = 1 then 0 else numberOfColumns (grid b) - 1)
                 = Inr (Val cell)" by blast
  from spawnEnemy_at[OF rt pick cell d] assms d show ?thesis by (auto simp: enemyPlaced_simps)
qed

lemma gridOk_cell_area:
  assumes "gridOk g" and "getCell g r c = Inr (Val cell)" and "hasCell g r c"
  shows "Entity_occupiedArea cell =
           \<lparr>Area_position =
              \<lparr>Point_x = of_int c * width (Area_dimensions (occupiedArea (grid_cellVisualTemplate g))),
               Point_y = 52 + of_int r * height (Area_dimensions (occupiedArea (grid_cellVisualTemplate g)))\<rparr>,
            Area_dimensions = \<lparr>width = 101, height = 83\<rparr>\<rparr>"
proof -
  from gridOk_getCell[OF assms(1,3)] assms(2) have
    "cellOk (grid_cellVisualTemplate g) (grid_rowTypes g ! nat r) r c cell" by auto
  then show ?thesis
    by (simp add: cellOk_def Entity_occupiedArea_def Area_offset_def Point_offset_def
        calculateCellPosition_def cellOccupiedArea_def Let_def)
qed

lemma not_diamond_cells: "\<not> list_ex isDiamond (map CellE cs)"
  by (induction cs) (simp_all add: isDiamond_def)

lemma not_enemy_cells: "filter (\<lambda>entity. \<not> isEnemy entity) (map CellE cs) = map CellE cs"
  by (induction cs) (simp_all add: isEnemy_def)


lemma boardWithoutEnemies_ready:
  "gridOk (grid boardWithoutEnemies)" "1 \<le> numberOfColumns (grid boardWithoutEnemies)"
  "spawnReady (grid boardWithoutEnemies)" "grid boardWithoutEnemies = exampleGrid"
  by (simp_all add: boardWithoutEnemies_def exampleGrid_facts spawnReady_def engineTemplate_def)

text \<open>
  C6. The claim: after \<open>spawnEnemy()\<close> has drawn the direction right, the new enemy lies
  fully outside the left edge of the board and its \<open>someOnTheBoard\<close> is false. The code, on
  every board whose grid the constructor built from a cell template with the occupied area
  of engine.js (any number of columns, any row types with a road row): the enemy is appended
  with the right edge of its occupied area at x = 1/2, half a pixel inside the occupied area
  of the grid, which starts at x = 0, and \<open>someOnTheBoard\<close> is true at once. (Centred in
  the first cell the sprite stands at x = 1/2, not at 0; the shift by the 98 pixels from the
  left of the sprite to the right edge of its occupied area leaves that half pixel.)
\<close>

theorem spawnEnemy_rightwards_overlaps_grid:
  assumes g: "BoardGrid_new tmpl n tys = Inr (grid b)"
    and t: "occupiedArea tmpl = cellOccupiedArea"
    and dm: "dimensions tmpl \<noteq> None"
    and n: "1 \<le> n"
    and road: "''road'' \<in> set tys"
    and rnd: "randomOk rs"
    and right: "1 / 2 \<le> shd rs"
  shows "\<exists>e. spawnEnemy b rs =
               Inr (b\<lparr>nonPlayerEntities := nonPlayerEntities b @ [EnemyE e]\<rparr>, stl (stl (stl rs))) \<and>
             Point_x (Area_topLeft (grid_occupiedArea (grid b))) = 0 \<and>
             Point_x (Area_topRight (Entity_occupiedArea e)) = 1 / 2 \<and>
             someOnTheBoard (grid b) e"
proof -
  note gf = BoardGrid_new_Inr[OF g]
  have nc: "1 \<le> numberOfColumns (grid b)" using n gf(3) by simp
  have ready: "spawnReady (grid b)" using road dm gf(2,4) by (simp add: spawnReady_def)
  have dir: "randBetween 0 1 (shd rs) = 1"
    using randBetween_right[OF right] randomOk_shd[OF rnd] by simp
  from spawnEnemy_ok[OF gf(1) nc ready rnd] obtain r cell d speed where
    s: "spawnEnemy b rs =
             Inr (b\<lparr>nonPlayerEntities := nonPlayerEntities b @
                    [EnemyE (enemyPlaced d speed True cell)]\<rparr>, stl (stl (stl rs)))"
    and r: "0 \<le> r" "r < numberOfRows (grid b)"
    and c: "getCell (grid b) r 0 = Inr (Val cell)"
    unfolding dir by auto
  have h: "hasCell (grid b) r 0" using r nc by (simp add: hasCell_def)
  have ca: "Entity_occupiedArea cell =
           \<lparr>Area_position = \<lparr>Point_x = 0, Point_y = 52 + of_int r * 83\<rparr>,
            Area_dimensions = \<lparr>width = 101, height = 83\<rparr>\<rparr>"
    using gridOk_cell_area[OF gf(1) c h] by (simp add: gf(4) t cellOccupiedArea_def)
  have ea: "Entity_occupiedArea (enemyPlaced d speed True cell) =
           \<lparr>Area_position = \<lparr>Point_x = - (191 / 2), Point_y = 145 / 2 + of_int r * 83\<rparr>,
            Area_dimensions = \<lparr>width = 96, height = 42\<rparr>\<rparr>"
    by (simp add: enemyPlaced_simps(5) ca Area_center_def)
  have ga: "grid_occupiedArea (grid b) =
           \<lparr>Area_position = \<lparr>Point_x = 0, Point_y = 52\<rparr>,
            Area_dimensions = \<lparr>width = 101 * of_int n, height = 83 * of_int (int (length tys))\<rparr>\<rparr>"
    by (simp add: gf(5) t cellOccupiedArea_def)
  have rr: "(of_int r :: real) \<le> of_int (int (length tys)) - 1" "(0 :: real) \<le> of_int r"
    using r by (simp_all add: numberOfRows_def gf(2))
  have nn: "(1 :: real) \<le> of_int n" using n by simp
  have corner: "Area_containsPoint (grid_occupiedArea (grid b))
                  (Area_topRight (Entity_occupiedArea (enemyPlaced d speed True cell)))"
    unfolding ea ga using rr nn
    by (simp add: Area_containsPoint_def Area_topRight_def Area_topLeft_def Area_bottomLeft_def)
  have "someOnTheBoard (grid b) (enemyPlaced d speed True cell)"
    unfolding someOnTheBoard_def Area_intersectsWithArea_def
    using corner by (simp add: Area_corners_def)
  moreover have "Point_x (Area_topRight (Entity_occupiedArea (enemyPlaced d speed True cell))) = 1 / 2"
    by (simp add: ea Area_topRight_def)
  moreover have "Point_x (Area_topLeft (grid_occupiedArea (grid b))) = 0"
    by (simp add: ga Area_topLeft_def)
  ultimately show ?thesis using s by blast
qed

theorem spawnEnemy_rightwards_overlaps_grid_witness:
  "BoardGrid_new engineTemplate 2 [''water'', ''road'', ''grass''] = Inr (grid boardWithoutEnemies) \<and>
   occupiedArea engineTemplate = cellOccupiedArea \<and>
   randomOk (sconst (1 / 2)) \<and> 1 / 2 \<le> shd (sconst (1 / 2 :: real)) \<and>
   (\<exists>e. spawnEnemy boardWithoutEnemies (sconst (1 / 2)) =
          Inr (boardWithoutEnemies\<lparr>nonPlayerEntities :=
                 nonPlayerEntities boardWithoutEnemies @ [EnemyE e]\<rparr>, sconst (1 / 2)) \<and>
        Point_x (Area_topRight (Entity_occupiedArea e)) = 1 / 2 \<and>
        someOnTheBoard exampleGrid e)"
proof -
  have g: "BoardGrid_new engineTemplate 2 [''water'', ''road'', ''grass''] = Inr (grid boardWithoutEnemies)"
    by (simp add: boardWithoutEnemies_ready(4) exampleGrid_new)
  have t: "occupiedArea engineTemplate = cellOccupiedArea"
    by (simp add: engineTemplate_def cellOccupiedArea_def)
  have dm: "dimensions engineTemplate \<noteq> None" by (simp add: engineTemplate_def)
  have h: "1 / 2 \<le> shd (sconst (1 / 2 :: real))" by simp
  from spawnEnemy_rightwards_overlaps_grid[OF g t dm _ _ randomOk_half h]
  show ?thesis using g t h randomOk_half by (auto simp: boardWithoutEnemies_ready(4))
qed

text \<open>
  The branch for the direction left, on the same boards with a template image 101 pixels
  wide, does what the comments say: the occupied area of the new enemy starts 4.5 pixels
  beyond the right edge of the occupied area of the grid, and \<open>someOnTheBoard\<close> is false.
\<close>

lemma spawnEnemy_leftwards_outside_grid:
  assumes g: "BoardGrid_new tmpl n tys = Inr (grid b)"
    and t: "occupiedArea tmpl = cellOccupiedArea"
    and dm: "dimensions tmpl = Some d" and w: "width d = 101"
    and n: "1 \<le> n"
    and road: "''road'' \<in> set tys"
    and rnd: "randomOk rs"
    and left: "shd rs < 1 / 2"
  shows "\<exists>e. spawnEnemy b rs =
               Inr (b\<lparr>nonPlayerEntities := nonPlayerEntities b @ [EnemyE e]\<rparr>, stl (stl (stl rs))) \<and>
             Point_x (Area_topRight (grid_occupiedArea (grid b))) = 101 * of_int n \<and>
             Point_x (Area_topLeft (Entity_occupiedArea e)) = 101 * of_int n + 9 / 2 \<and>
             \<not> someOnTheBoard (grid b) e"
proof -
  note gf = BoardGrid_new_Inr[OF g]
  have nc: "1 \<le> numberOfColumns (grid b)" using n gf(3) by simp
  have ready: "spawnReady (grid b)" using road dm gf(2,4) by (simp add: spawnReady_def)
  have dir: "randBetween 0 1 (shd rs) \<noteq> 1"
    using randBetween_left[OF _ left] randomOk_shd[OF rnd] by simp
  from spawnEnemy_ok[OF gf(1) nc ready rnd] obtain r cell d' speed where
    s: "spawnEnemy b rs =
             Inr (b\<lparr>nonPlayerEntities := nonPlayerEntities b @
                    [EnemyE (enemyPlaced d' speed False cell)]\<rparr>, stl (stl (stl rs)))"
    and r: "0 \<le> r" "r < numberOfRows (grid b)"
    and c: "getCell (grid b) r (numberOfColumns (grid b) - 1) = Inr (Val cell)"
    and d': "dimensions (grid_cellVisualTemplate (grid b)) = Some d'"
    using dir by auto
  have dd: "d' = d" using d' dm gf(4) by simp
  have h: "hasCell (grid b) r (numberOfColumns (grid b) - 1)" using r nc by (simp add: hasCell_def)
  have ca: "Entity_occupiedArea cell =
           \<lparr>Area_position = \<lparr>Point_x = (of_int n - 1) * 101, Point_y = 52 + of_int r * 83\<rparr>,
            Area_dimensions = \<lparr>width = 101, height = 83\<rparr>\<rparr>"
    using gridOk_cell_area[OF gf(1) c h] by (simp add: gf(3,4) t cellOccupiedArea_def)
  have ea: "Entity_occupiedArea (enemyPlaced d' speed False cell) =
           \<lparr>Area_position = \<lparr>Point_x = 101 * of_int n + 9 / 2, Point_y = 145 / 2 + of_int r * 83\<rparr>,
            Area_dimensions = \<lparr>width = 96, height = 42\<rparr>\<rparr>"
    by (simp add: enemyPlaced_simps(5) ca Area_center_def dd w algebra_simps)
  have ga: "grid_occupiedArea (grid b) =
           \<lparr>Area_position = \<lparr>Point_x = 0, Point_y = 52\<rparr>,
            Area_dimensions = \<lparr>width = 101 * of_int n, height = 83 * of_int (int (length tys))\<rparr>\<rparr>"
    by (simp add: gf(5) t cellOccupiedArea_def)
  have nn: "(1 :: real) \<le> of_int n" using n by simp
  have "\<not> someOnTheBoard (grid b) (enemyPlaced d' speed False cell)"
    unfolding someOnTheBoard_def Area_intersectsWithArea_def ea ga using nn
    by (simp add: Area_corners_def Area_containsPoint_def Area_topLeft_def Area_topRight_def
        Area_bottomLeft_def Area_bottomRight_def)
  moreover have "Point_x (Area_topLeft (Entity_occupiedArea (enemyPlaced d' speed False cell))) = 101 * of_int n + 9 / 2"
    by (simp add: ea Area_topLeft_def)
  moreover have "Point_x (Area_topRight (grid_occupiedArea (grid b))) = 101 * of_int n"
    by (simp add: ga Area_topRight_def)
  ultimately show ?thesis using s by blast
qed

section \<open>One turn of the update loop\<close>

lemma bleed_ok:
  assumes "dimensions (grid_cellVisualTemplate (grid b)) = Some d"
  shows "bleed b direction =
           Inr (b\<lparr>nonPlayerEntities := nonPlayerEntities b @ [PropE (bloodProp d direction (position (player b)))]\<rparr>)"
  using assms by (simp add: bleed_def EntityVisual_new_def Area_new_def bloodProp_def)

lemma respawnPlayer_ok:
  assumes "Player_new (grid b) = Inr p"
  shows "respawnPlayer b True = Inr (b\<lparr>player := p\<lparr>score := score (player b)\<rparr>\<rparr>)"
  using assms by (simp add: respawnPlayer_def)

lemma Board_inv_Player_new:
  assumes "Board_inv b"
  shows "\<exists>p. Player_new (grid b) = Inr p \<and> gridPosition p = playerStartPosition (grid b) \<and> score p = 0 \<and>
           centredOnCell (grid b) p (row (playerStartPosition (grid b))) (column (playerStartPosition (grid b)))"
  using assms Player_new_ok unfolding Board_inv_def by blast

lemma splice1_nth:
  assumes "index < length xs"
  shows "xs = take index xs @ [xs ! index] @ drop (Suc index) xs"
  using assms by (simp add: id_take_nth_drop[symmetric])

lemma filter_splice1_other:
  assumes "index < length xs" and "\<not> P (xs ! index)"
  shows "filter P (splice1 index xs) = filter P xs"
proof -
  have "filter P xs = filter P (take index xs @ [xs ! index] @ drop (Suc index) xs)"
    using splice1_nth[OF assms(1)] by simp
  then show ?thesis using assms(2) by (simp add: splice1_def)
qed

lemma filter_splice1_same:
  assumes "index < length xs" and "P (xs ! index)"
  shows "Suc (length (filter P (splice1 index xs))) = length (filter P xs)"
proof -
  have "filter P xs = filter P (take index xs @ [xs ! index] @ drop (Suc index) xs)"
    using splice1_nth[OF assms(1)] by simp
  then show ?thesis using assms(2) by (simp add: splice1_def)
qed

lemma set_splice1: "set (splice1 index xs) \<subseteq> set xs"
  by (auto simp: splice1_def dest: in_set_takeD in_set_dropD)

lemma splice1_update: "splice1 index (xs[index := x]) = splice1 index xs"
  by (simp add: splice1_def)

lemma length_splice1: "index < length xs \<Longrightarrow> Suc (length (splice1 index xs)) = length xs"
  by (simp add: splice1_def)

lemma filter_update_same:
  assumes "index < length xs" and "P (xs ! index)" and "P x"
  shows "length (filter P (xs[index := x])) = length (filter P xs)"
proof -
  have "filter P xs = filter P (take index xs @ [xs ! index] @ drop (Suc index) xs)"
    using splice1_nth[OF assms(1)] by simp
  moreover have "xs[index := x] = take index xs @ [x] @ drop (Suc index) xs"
    using assms(1) by (simp add: upd_conv_take_nth_drop)
  ultimately show ?thesis using assms(2,3) by simp
qed


lemma js_index_nth: "index < length xs \<Longrightarrow> js_index xs (int index) = Val (xs ! index)"
  by (simp add: js_index_def)

lemma Enemy_update_ok:
  assumes "canMoveOutsideBoard e"
  shows "\<exists>e'. Enemy_update globalBoard g dt e = Inr e' \<and> canMoveOutsideBoard e' \<and>
              removeOnHit e' = removeOnHit e"
  using assms by (simp add: Enemy_update_def Actor_move_def Actor_canMove_def)

lemma onEnemy_ok:
  assumes ok: "gridOk (grid b)" and n: "1 \<le> numberOfColumns (grid b)"
    and ready: "spawnReady (grid b)" and rnd: "randomOk rs"
    and e: "Enemy_update globalBoard (grid b) dt e = Inr e'"
  shows "if respawnOnNextUpdate e'
         then \<exists>spawned. onEnemy globalBoard dt index True e (b, rs) =
                  Inr (b\<lparr>nonPlayerEntities := splice1 index (nonPlayerEntities b) @ [EnemyE spawned]\<rparr>,
                       stl (stl (stl rs))) \<and>
                canMoveOutsideBoard spawned \<and> \<not> removeOnHit spawned
         else onEnemy globalBoard dt index True e (b, rs) =
                  Inr (b\<lparr>nonPlayerEntities := (nonPlayerEntities b)[index := EnemyE e']\<rparr>, rs)"
proof (cases "respawnOnNextUpdate e'")
  case True
  let ?b = "b\<lparr>nonPlayerEntities := splice1 index (nonPlayerEntities b)\<rparr>"
  have g: "grid ?b = grid b" by simp
  from spawnEnemy_ok[of ?b rs] ok n ready rnd obtain spawned where
    s: "spawnEnemy ?b rs = Inr (?b\<lparr>nonPlayerEntities := nonPlayerEntities ?b @ [EnemyE spawned]\<rparr>, stl (stl (stl rs)))"
    "canMoveOutsideBoard spawned" "\<not> removeOnHit spawned"
    unfolding g using enemyPlaced_simps(1,2) by blast
  show ?thesis using True e s by (auto simp: onEnemy_def splice1_update)
next
  case False
  then show ?thesis using e by (simp add: onEnemy_def)
qed

lemma onTouch_enemy:
  assumes p: "Player_new (grid b) = Inr fresh"
    and d: "dimensions (grid_cellVisualTemplate (grid b)) = Some d"
    and r: "\<not> removeOnHit e"
  shows "onTouch b index (EnemyE e) =
           Inr (b\<lparr>player := fresh\<lparr>score := score (player b) + hitScoreIncrement e\<rparr>,
                  nonPlayerEntities := nonPlayerEntities b @
                    [PropE (bloodProp d (inc_x (moveIncrement e)) (position (player b)))]\<rparr>)"
proof -
  let ?b2 = "b\<lparr>player := (player b)\<lparr>score := score (player b) + hitScoreIncrement e\<rparr>\<rparr>"
  have d2: "dimensions (grid_cellVisualTemplate (grid ?b2)) = Some d" using d by simp
  show ?thesis
    unfolding onTouch_def Let_def
    by (simp add: entityHitScoreIncrement_def entityRemoveOnHit_def r bleed_ok[OF d2]
        respawnPlayer_def p)
qed

lemma updateEntity_enemy:
  assumes inv: "Board_inv b" and i: "index < length (nonPlayerEntities b)"
    and at: "nonPlayerEntities b ! index = EnemyE e" and rnd: "randomOk rs"
  shows "\<exists>b1 e'.
     (if playerTouches (player b) (EnemyE e)
      then \<exists>fresh d. Player_new (grid b) = Inr fresh \<and>
             dimensions (grid_cellVisualTemplate (grid b)) = Some d \<and>
             b1 = b\<lparr>player := fresh\<lparr>score := score (player b) + hitScoreIncrement e\<rparr>,
                    nonPlayerEntities := nonPlayerEntities b @
                      [PropE (bloodProp d (inc_x (moveIncrement e)) (position (player b)))]\<rparr>
      else b1 = b) \<and>
     Enemy_update globalBoard (grid b) dt e = Inr e' \<and>
     canMoveOutsideBoard e' \<and> \<not> removeOnHit e' \<and>
     (if respawnOnNextUpdate e'
      then \<exists>spawned. updateEntity globalBoard dt index (b, rs) =
               Inr (b1\<lparr>nonPlayerEntities := splice1 index (nonPlayerEntities b1) @ [EnemyE spawned]\<rparr>,
                    stl (stl (stl rs))) \<and>
             canMoveOutsideBoard spawned \<and> \<not> removeOnHit spawned
      else updateEntity globalBoard dt index (b, rs) =
               Inr (b1\<lparr>nonPlayerEntities := (nonPlayerEntities b1)[index := EnemyE e']\<rparr>, rs))"
proof -
  have mem: "EnemyE e \<in> set (nonPlayerEntities b)" using i at by (metis nth_mem)
  with inv have ef: "canMoveOutsideBoard e" "\<not> removeOnHit e" and ready: "spawnReady (grid b)"
    and ok: "gridOk (grid b)" and n: "1 \<le> numberOfColumns (grid b)"
    unfolding Board_inv_def by blast+
  from ready obtain d where d: "dimensions (grid_cellVisualTemplate (grid b)) = Some d"
    by (auto simp: spawnReady_def)
  from Board_inv_Player_new[OF inv] obtain fresh where p: "Player_new (grid b) = Inr fresh" by blast
  from Enemy_update_ok[OF ef(1), of globalBoard "grid b" dt] obtain e' where
    e': "Enemy_update globalBoard (grid b) dt e = Inr e'" "canMoveOutsideBoard e'" "\<not> removeOnHit e'"
    using ef(2) by auto
  define b1 where "b1 = (if playerTouches (player b) (EnemyE e)
      then b\<lparr>player := fresh\<lparr>score := score (player b) + hitScoreIncrement e\<rparr>,
                    nonPlayerEntities := nonPlayerEntities b @
                      [PropE (bloodProp d (inc_x (moveIncrement e)) (position (player b)))]\<rparr>
      else b)"
  have g1: "grid b1 = grid b" by (simp add: b1_def)
  have step: "updateEntity globalBoard dt index (b, rs) = onEnemy globalBoard dt index True e (b1, rs)"
    unfolding updateEntity_def
    by (simp add: js_index_nth[OF i] at ef(2) onTouch_enemy[OF p d ef(2)] b1_def)
  have e1: "Enemy_update globalBoard (grid b1) dt e = Inr e'" using e'(1) g1 by simp
  from onEnemy_ok[of b1 rs globalBoard dt e e' index] ok n ready rnd e1 g1
  have on: "if respawnOnNextUpdate e'
         then \<exists>spawned. onEnemy globalBoard dt index True e (b1, rs) =
                  Inr (b1\<lparr>nonPlayerEntities := splice1 index (nonPlayerEntities b1) @ [EnemyE spawned]\<rparr>,
                       stl (stl (stl rs))) \<and>
                canMoveOutsideBoard spawned \<and> \<not> removeOnHit spawned
         else onEnemy globalBoard dt index True e (b1, rs) =
                  Inr (b1\<lparr>nonPlayerEntities := (nonPlayerEntities b1)[index := EnemyE e']\<rparr>, rs)"
    by simp
  have first: "if playerTouches (player b) (EnemyE e)
      then \<exists>fresh d. Player_new (grid b) = Inr fresh \<and>
             dimensions (grid_cellVisualTemplate (grid b)) = Some d \<and>
             b1 = b\<lparr>player := fresh\<lparr>score := score (player b) + hitScoreIncrement e\<rparr>,
                    nonPlayerEntities := nonPlayerEntities b @
                      [PropE (bloodProp d (inc_x (moveIncrement e)) (position (player b)))]\<rparr>
      else b1 = b"
    using p d by (simp add: b1_def)
  show ?thesis
    apply (rule exI[of _ b1], rule exI[of _ e'])
    using first e' on unfolding step by simp
qed

lemma updateEntity_other:
  assumes inv: "Board_inv b" and i: "index < length (nonPlayerEntities b)"
    and ne: "\<not> isEnemy (nonPlayerEntities b ! index)"
  shows "\<exists>b'. updateEntity globalBoard dt index (b, rs) = Inr (b', rs) \<and>
           grid b' = grid b \<and> numberOfEnemies b' = numberOfEnemies b \<and>
           (nonPlayerEntities b' = nonPlayerEntities b \<or>
            nonPlayerEntities b' = splice1 index (nonPlayerEntities b))"
proof -
  from Board_inv_Player_new[OF inv] obtain fresh where p: "Player_new (grid b) = Inr fresh" by blast
  define entity where "entity = nonPlayerEntities b ! index"
  have t: "\<exists>b'. onTouch b index entity = Inr b' \<and>
           grid b' = grid b \<and> numberOfEnemies b' = numberOfEnemies b \<and>
           (nonPlayerEntities b' = nonPlayerEntities b \<or>
            nonPlayerEntities b' = splice1 index (nonPlayerEntities b))"
  proof (cases entity)
    case (CellE c)
    then show ?thesis by (simp add: onTouch_def Let_def respawnPlayer_def p)
  next
    case (DiamondE d)
    then show ?thesis by (simp add: onTouch_def Let_def)
  next
    case (EnemyE e)
    then show ?thesis using ne by (simp add: entity_def isEnemy_def)
  next
    case (PropE q)
    then show ?thesis by (simp add: onTouch_def Let_def)
  qed
  show ?thesis
  proof (cases "playerTouches (player b) entity")
    case True
    from t obtain b' where b': "onTouch b index entity = Inr b'"
           "grid b' = grid b" "numberOfEnemies b' = numberOfEnemies b"
           "nonPlayerEntities b' = nonPlayerEntities b \<or>
            nonPlayerEntities b' = splice1 index (nonPlayerEntities b)" by blast
    have "updateEntity globalBoard dt index (b, rs) = Inr (b', rs)"
      using ne True b'(1) unfolding updateEntity_def entity_def[symmetric] 
      by (cases entity) (simp_all add: js_index_nth[OF i] entity_def[symmetric] isEnemy_def)
    with b' show ?thesis by blast
  next
    case False
    have "updateEntity globalBoard dt index (b, rs) = Inr (b, rs)"
      using ne False unfolding updateEntity_def entity_def[symmetric] 
      by (cases entity) (simp_all add: js_index_nth[OF i] entity_def[symmetric] isEnemy_def)
    then show ?thesis by simp
  qed
qed









section \<open>The number of enemies\<close>

lemma Board_inv_cong:
  assumes "Board_inv b" and "grid b' = grid b"
    and "\<And>x. EnemyE x \<in> set (nonPlayerEntities b') \<Longrightarrow>
            EnemyE x \<in> set (nonPlayerEntities b) \<or>
            (canMoveOutsideBoard x \<and> \<not> removeOnHit x \<and> spawnReady (grid b))"
  shows "Board_inv b'"
  using assms unfolding Board_inv_def by metis

lemma updateEntity_inv:
  assumes inv: "Board_inv b" and i: "index < length (nonPlayerEntities b)" and rnd: "randomOk rs"
  shows "\<exists>b' rs'. updateEntity globalBoard dt index (b, rs) = Inr (b', rs') \<and>
           Board_inv b' \<and> randomOk rs' \<and> enemyCount b' = enemyCount b \<and>
           numberOfEnemies b' = numberOfEnemies b \<and> grid b' = grid b \<and>
           index \<le> length (nonPlayerEntities b')"
proof (cases "isEnemy (nonPlayerEntities b ! index)")
  case False
  from updateEntity_other[OF inv i False, of globalBoard dt rs] obtain b' where
    b': "updateEntity globalBoard dt index (b, rs) = Inr (b', rs)"
        "grid b' = grid b" "numberOfEnemies b' = numberOfEnemies b"
        "nonPlayerEntities b' = nonPlayerEntities b \<or>
         nonPlayerEntities b' = splice1 index (nonPlayerEntities b)" by blast
  have sub: "set (nonPlayerEntities b') \<subseteq> set (nonPlayerEntities b)"
    using b'(4) set_splice1[of index "nonPlayerEntities b"] by auto
  have "Board_inv b'" by (rule Board_inv_cong[OF inv b'(2)]) (use sub in blast)
  moreover have "enemyCount b' = enemyCount b"
    using b'(4) filter_splice1_other[of index "nonPlayerEntities b" isEnemy, OF i False] by (auto simp: enemyCount_def)
  moreover have "index \<le> length (nonPlayerEntities b')"
    using b'(4) i length_splice1[OF i] by auto
  ultimately show ?thesis using b' rnd by blast
next
  case True
  then obtain e where at: "nonPlayerEntities b ! index = EnemyE e"
    by (cases "nonPlayerEntities b ! index") (simp_all add: isEnemy_def)
  have mem: "EnemyE e \<in> set (nonPlayerEntities b)" using i at by (metis nth_mem)
  with inv have ready: "spawnReady (grid b)" unfolding Board_inv_def by blast
  from updateEntity_enemy[OF inv i at rnd, of globalBoard dt] obtain b1 e' where
    b1: "if playerTouches (player b) (EnemyE e)
      then \<exists>fresh d. Player_new (grid b) = Inr fresh \<and>
             dimensions (grid_cellVisualTemplate (grid b)) = Some d \<and>
             b1 = b\<lparr>player := fresh\<lparr>score := score (player b) + hitScoreIncrement e\<rparr>,
                    nonPlayerEntities := nonPlayerEntities b @
                      [PropE (bloodProp d (inc_x (moveIncrement e)) (position (player b)))]\<rparr>
      else b1 = b"
    and e': "canMoveOutsideBoard e'" "\<not> removeOnHit e'"
    and res: "if respawnOnNextUpdate e'
      then \<exists>spawned. updateEntity globalBoard dt index (b, rs) =
               Inr (b1\<lparr>nonPlayerEntities := splice1 index (nonPlayerEntities b1) @ [EnemyE spawned]\<rparr>,
                    stl (stl (stl rs))) \<and>
             canMoveOutsideBoard spawned \<and> \<not> removeOnHit spawned
      else updateEntity globalBoard dt index (b, rs) =
               Inr (b1\<lparr>nonPlayerEntities := (nonPlayerEntities b1)[index := EnemyE e']\<rparr>, rs)"
    by blast
  from b1 obtain extra where l1: "nonPlayerEntities b1 = nonPlayerEntities b @ extra"
    "\<forall>x \<in> set extra. \<not> isEnemy x" and g1: "grid b1 = grid b"
    and n1: "numberOfEnemies b1 = numberOfEnemies b"
    by (cases "playerTouches (player b) (EnemyE e)") (auto simp: isEnemy_def)
  have i1: "index < length (nonPlayerEntities b1)" using i l1 by simp
  have at1: "nonPlayerEntities b1 ! index = EnemyE e" using i at l1 by (simp add: nth_append)
  have c1: "length (filter isEnemy (nonPlayerEntities b1)) = enemyCount b"
    using l1 by (simp add: enemyCount_def)
  have s1: "\<And>x. EnemyE x \<in> set (nonPlayerEntities b1) \<Longrightarrow> EnemyE x \<in> set (nonPlayerEntities b)"
    using l1 by (auto simp: isEnemy_def)
  show ?thesis
  proof (cases "respawnOnNextUpdate e'")
    case True
    with res obtain spawned where
      r: "updateEntity globalBoard dt index (b, rs) =
               Inr (b1\<lparr>nonPlayerEntities := splice1 index (nonPlayerEntities b1) @ [EnemyE spawned]\<rparr>,
                    stl (stl (stl rs)))"
      and sp: "canMoveOutsideBoard spawned" "\<not> removeOnHit spawned" by auto
    let ?b' = "b1\<lparr>nonPlayerEntities := splice1 index (nonPlayerEntities b1) @ [EnemyE spawned]\<rparr>"
    have "Board_inv ?b'"
    proof (rule Board_inv_cong[OF inv])
      show "grid ?b' = grid b" using g1 by simp
      fix x assume "EnemyE x \<in> set (nonPlayerEntities ?b')"
      then have "EnemyE x \<in> set (nonPlayerEntities b1) \<or> x = spawned"
        using set_splice1[of index "nonPlayerEntities b1"] by auto
      then show "EnemyE x \<in> set (nonPlayerEntities b) \<or>
            (canMoveOutsideBoard x \<and> \<not> removeOnHit x \<and> spawnReady (grid b))"
        using s1 sp ready by blast
    qed
    moreover have "enemyCount ?b' = enemyCount b"
      using filter_splice1_same[OF i1, of isEnemy] at1 c1 by (simp add: enemyCount_def isEnemy_def)
    moreover have "index \<le> length (nonPlayerEntities ?b')" using length_splice1[OF i1] i1 by simp
    moreover have "randomOk (stl (stl (stl rs)))" by (intro randomOk_stl rnd)
    ultimately show ?thesis using r g1 n1 by auto
  next
    case False
    with res have
      r: "updateEntity globalBoard dt index (b, rs) =
               Inr (b1\<lparr>nonPlayerEntities := (nonPlayerEntities b1)[index := EnemyE e']\<rparr>, rs)" by simp
    let ?b' = "b1\<lparr>nonPlayerEntities := (nonPlayerEntities b1)[index := EnemyE e']\<rparr>"
    have "Board_inv ?b'"
    proof (rule Board_inv_cong[OF inv])
      show "grid ?b' = grid b" using g1 by simp
      fix x assume "EnemyE x \<in> set (nonPlayerEntities ?b')"
      then have "EnemyE x \<in> set (nonPlayerEntities b1) \<or> x = e'"
        using set_update_subset_insert[of "nonPlayerEntities b1" index "EnemyE e'"] by auto
      then show "EnemyE x \<in> set (nonPlayerEntities b) \<or>
            (canMoveOutsideBoard x \<and> \<not> removeOnHit x \<and> spawnReady (grid b))"
        using s1 e' ready by blast
    qed
    moreover have "enemyCount ?b' = enemyCount b"
      using filter_update_same[OF i1, of isEnemy "EnemyE e'"] at1 c1
      by (simp add: enemyCount_def isEnemy_def)
    moreover have "index \<le> length (nonPlayerEntities ?b')" using i1 by simp
    ultimately show ?thesis using r g1 n1 rnd by auto
  qed
qed

lemma updateLoop_inv:
  assumes "Board_inv b" and "k \<le> length (nonPlayerEntities b)" and "randomOk rs"
  shows "\<exists>b' rs'. updateLoop globalBoard dt k (b, rs) = Inr (b', rs') \<and>
           Board_inv b' \<and> randomOk rs' \<and> enemyCount b' = enemyCount b \<and>
           numberOfEnemies b' = numberOfEnemies b \<and> grid b' = grid b"
  using assms
proof (induction k arbitrary: b rs)
  case 0
  then show ?case by simp
next
  case (Suc k)
  from Suc.prems have i: "k < length (nonPlayerEntities b)" by simp
  from updateEntity_inv[OF Suc.prems(1) i Suc.prems(3), of globalBoard dt] obtain b1 rs1 where
    s: "updateEntity globalBoard dt k (b, rs) = Inr (b1, rs1)" "Board_inv b1" "randomOk rs1"
       "enemyCount b1 = enemyCount b" "numberOfEnemies b1 = numberOfEnemies b" "grid b1 = grid b"
       "k \<le> length (nonPlayerEntities b1)" by blast
  from Suc.IH[OF s(2) s(7) s(3)] obtain b' rs' where
    "updateLoop globalBoard dt k (b1, rs1) = Inr (b', rs')" "Board_inv b'" "randomOk rs'"
    "enemyCount b' = enemyCount b1" "numberOfEnemies b' = numberOfEnemies b1" "grid b' = grid b1"
    by blast
  then show ?case using s by simp
qed

lemma Board_update_inv:
  assumes "Board_inv b" and "randomOk rs"
  shows "\<exists>b' rs'. Board_update globalBoard dt (b, rs) = Inr (b', rs') \<and>
           Board_inv b' \<and> randomOk rs' \<and> enemyCount b' = enemyCount b \<and>
           numberOfEnemies b' = numberOfEnemies b \<and> grid b' = grid b"
  using updateLoop_inv[OF assms(1) _ assms(2), of "length (nonPlayerEntities b)" globalBoard dt]
  by (simp add: Board_update_def)

lemma Board_run_inv:
  assumes "Board_inv b" and "randomOk rs"
  shows "\<exists>b' rs'. Board_run globalBoard events (b, rs) = Inr (b', rs') \<and>
           Board_inv b' \<and> randomOk rs' \<and> enemyCount b' = enemyCount b \<and>
           numberOfEnemies b' = numberOfEnemies b \<and> grid b' = grid b"
  using assms
proof (induction events arbitrary: b rs)
  case Nil
  then show ?case by simp
next
  case (Cons ev events)
  show ?case
  proof (cases ev)
    case (Frame dt)
    from Board_update_inv[OF Cons.prems, of globalBoard dt] obtain b1 rs1 where
      s: "Board_update globalBoard dt (b, rs) = Inr (b1, rs1)" "Board_inv b1" "randomOk rs1"
         "enemyCount b1 = enemyCount b" "numberOfEnemies b1 = numberOfEnemies b" "grid b1 = grid b"
      by blast
    from Cons.IH[OF s(2,3)] obtain b' rs' where
      "Board_run globalBoard events (b1, rs1) = Inr (b', rs')" "Board_inv b'" "randomOk rs'"
      "enemyCount b' = enemyCount b1" "numberOfEnemies b' = numberOfEnemies b1" "grid b' = grid b1"
      by blast
    then show ?thesis using s Frame by simp
  next
    case (KeyUp direction)
    let ?b = "b\<lparr>player := snd (moveInGrid (grid b) (player b) direction)\<rparr>"
    have i: "Board_inv ?b" using Cons.prems(1) by (simp add: Board_inv_def)
    from Cons.IH[OF i Cons.prems(2)] obtain b' rs' where
      "Board_run globalBoard events (?b, rs) = Inr (b', rs')" "Board_inv b'" "randomOk rs'"
      "enemyCount b' = enemyCount ?b" "numberOfEnemies b' = numberOfEnemies ?b" "grid b' = grid ?b"
      by blast
    then show ?thesis using KeyUp by (simp add: enemyCount_def)
  qed
qed

lemma spawnEnemies_Inr:
  assumes "spawnEnemies k (b, rs) = Inr (b', rs')"
  shows "grid b' = grid b \<and> numberOfEnemies b' = numberOfEnemies b \<and>
         (\<exists>es. nonPlayerEntities b' = nonPlayerEntities b @ map EnemyE es \<and> length es = k \<and>
               (\<forall>e \<in> set es. canMoveOutsideBoard e \<and> \<not> removeOnHit e \<and>
                   dimensions (grid_cellVisualTemplate (grid b)) \<noteq> None))"
  using assms
proof (induction k arbitrary: b rs)
  case 0
  then show ?case by simp
next
  case (Suc k)
  from Suc.prems obtain b1 rs1 where
    s: "spawnEnemy b rs = Inr (b1, rs1)" and r: "spawnEnemies k (b1, rs1) = Inr (b', rs')"
    by (auto split: sum.splits)
  from spawnEnemy_Inr[OF s] obtain e where
    e: "b1 = b\<lparr>nonPlayerEntities := nonPlayerEntities b @ [EnemyE e]\<rparr>"
       "canMoveOutsideBoard e" "\<not> removeOnHit e"
       "dimensions (grid_cellVisualTemplate (grid b)) \<noteq> None" by blast
  from Suc.IH[OF r] obtain es where
    ih: "grid b' = grid b1" "numberOfEnemies b' = numberOfEnemies b1"
        "nonPlayerEntities b' = nonPlayerEntities b1 @ map EnemyE es" "length es = k"
        "\<forall>x \<in> set es. canMoveOutsideBoard x \<and> \<not> removeOnHit x \<and>
                   dimensions (grid_cellVisualTemplate (grid b1)) \<noteq> None" by blast
  have "nonPlayerEntities b' = nonPlayerEntities b @ map EnemyE (e # es)"
    using ih(3) e(1) by simp
  moreover have "length (e # es) = Suc k" using ih(4) by simp
  moreover have "\<forall>x \<in> set (e # es). canMoveOutsideBoard x \<and> \<not> removeOnHit x \<and>
                   dimensions (grid_cellVisualTemplate (grid b)) \<noteq> None"
    using ih(5) e by simp
  ultimately show ?case using ih(1,2) e(1) by (intro conjI exI[of _ "e # es"]) simp_all
qed

lemma Board_new_Inr:
  assumes new: "Board_new cfg rs = Some (Inr (b, rs1))"
    and road: "''road'' \<in> set (cfg_rowTypes cfg)"
  shows "Board_inv b" and "enemyCount b = cfg_numberOfEnemies cfg"
    and "numberOfEnemies b = cfg_numberOfEnemies cfg"
    and "BoardGrid_new (cfg_cellVisualTemplate cfg) (cfg_numberOfColumns cfg) (cfg_rowTypes cfg) = Inr (grid b)"
proof -
  from new obtain g where g: "BoardGrid_new (cfg_cellVisualTemplate cfg) (cfg_numberOfColumns cfg) (cfg_rowTypes cfg) = Inr g"
    unfolding Board_new_def by (auto split: sum.splits)
  from new obtain entities rs0 where
    d: "placeDiamonds g (cfg_numberOfDiamonds cfg) (map CellE (cells g)) rs = Some (Inr (entities, rs0))"
    unfolding Board_new_def g sum.case by (auto split: option.splits sum.splits)
  from new obtain p where p: "Player_new g = Inr p"
    unfolding Board_new_def g sum.case d option.case prod.case by (auto split: sum.splits)
  define b0 where "b0 = \<lparr>numberOfEnemies = cfg_numberOfEnemies cfg,
                       numberOfDiamonds = cfg_numberOfDiamonds cfg,
                       enemyIncrementRange = cfg_enemyIncrementRange cfg,
                       cellVisualTemplate = cfg_cellVisualTemplate cfg,
                       grid = g,
                       nonPlayerEntities = entities,
                       player = p\<rparr>"
  from new have r: "respawnEnemies b0 rs0 = Inr (b, rs1)"
    unfolding Board_new_def g sum.case d option.case prod.case p b0_def by simp
  then have s: "spawnEnemies (cfg_numberOfEnemies cfg)
       (b0\<lparr>nonPlayerEntities := filter (\<lambda>entity. \<not> isEnemy entity) entities\<rparr>, rs0) = Inr (b, rs1)"
    by (simp add: respawnEnemies_def b0_def)
  from spawnEnemies_Inr[OF s] obtain es where
    es: "grid b = g" "numberOfEnemies b = cfg_numberOfEnemies cfg"
        "nonPlayerEntities b = filter (\<lambda>entity. \<not> isEnemy entity) entities @ map EnemyE es"
        "length es = cfg_numberOfEnemies cfg"
        "\<forall>e \<in> set es. canMoveOutsideBoard e \<and> \<not> removeOnHit e \<and>
                   dimensions (grid_cellVisualTemplate g) \<noteq> None"
    by (auto simp: b0_def)
  note gf = BoardGrid_new_Inr[OF g]
  show "BoardGrid_new (cfg_cellVisualTemplate cfg) (cfg_numberOfColumns cfg) (cfg_rowTypes cfg) = Inr (grid b)"
    using g es(1) by simp
  show "numberOfEnemies b = cfg_numberOfEnemies cfg" by (rule es(2))
  have "filter isEnemy (map EnemyE es) = map EnemyE es"
    by (induction es) (simp_all add: isEnemy_def)
  then show "enemyCount b = cfg_numberOfEnemies cfg"
    unfolding enemyCount_def es(3) using es(4) by simp
  show "Board_inv b"
    unfolding Board_inv_def es(1)
  proof (intro conjI allI impI)
    show "gridOk g" by (rule gf(1))
    show "1 \<le> numberOfColumns g" by (rule Player_new_needs(1)[OF gf(1) p])
    show "grid_rowTypes g \<noteq> []" by (rule Player_new_needs(2)[OF gf(1) p])
  next
    fix e assume "EnemyE e \<in> set (nonPlayerEntities b)"
    then have m: "e \<in> set es" unfolding es(3) by (auto simp: isEnemy_def)
    with es(5) show "canMoveOutsideBoard e" "\<not> removeOnHit e" by auto
    show "spawnReady g" using m es(5) road gf(2) by (auto simp: spawnReady_def)
  qed
qed

lemma exampleBoard_new:
  "Board_new exampleConfig (sconst (1 / 2)) = Some (Inr (exampleBoard, sconst (1 / 2)))"
proof -
  from spawnEnemy_ok[OF boardWithoutEnemies_ready(1,2,3) randomOk_half] obtain e where
    s: "spawnEnemy boardWithoutEnemies (sconst (1 / 2)) =
          Inr (boardWithoutEnemies\<lparr>nonPlayerEntities :=
                 nonPlayerEntities boardWithoutEnemies @ [EnemyE e]\<rparr>, sconst (1 / 2))"
    by auto
  have d: "placeDiamonds exampleGrid 0 (map CellE (cells exampleGrid)) (sconst (1 / 2)) =
             Some (Inr (map CellE (cells exampleGrid), sconst (1 / 2)))"
    by (simp add: placeDiamonds_def not_diamond_cells placeDiamondsLoop.simps)
  have r: "respawnEnemies boardWithoutEnemies (sconst (1 / 2)) =
             Inr (boardWithoutEnemies\<lparr>nonPlayerEntities :=
                 nonPlayerEntities boardWithoutEnemies @ [EnemyE e]\<rparr>, sconst (1 / 2))"
  proof -
    have "boardWithoutEnemies\<lparr>nonPlayerEntities :=
            filter (\<lambda>entity. \<not> isEnemy entity) (nonPlayerEntities boardWithoutEnemies)\<rparr> =
          boardWithoutEnemies"
      by (simp add: boardWithoutEnemies_def not_enemy_cells)
    moreover have "numberOfEnemies boardWithoutEnemies = Suc 0" by (simp add: boardWithoutEnemies_def)
    ultimately show ?thesis unfolding respawnEnemies_def by (simp add: s)
  qed
  have "Board_new exampleConfig (sconst (1 / 2)) =
          Some (respawnEnemies boardWithoutEnemies (sconst (1 / 2)))"
    unfolding Board_new_def
    by (simp add: exampleConfig_def exampleGrid_new d examplePlayer_eq(1) boardWithoutEnemies_def)
  then show ?thesis unfolding exampleBoard_def by (simp add: r)
qed

text \<open>
  C7. Where the row types contain a road row, the constructor of Board has returned and the
  numbers \<open>Math.random()\<close> returns from then on lie in [0, 1): the board holds exactly
  \<open>numberOfEnemies\<close> enemies, none of them removed when hit; and after every run of frames
  and key presses, every \<open>update(dt)\<close> of which returns, it still holds exactly
  \<open>numberOfEnemies\<close> enemies, none of them removed when hit. (Within a pass, an enemy that
  leaves the collection is followed by one call of \<open>spawnEnemy\<close>: \<open>updateEntity_enemy\<close>.)
\<close>

theorem enemy_count_is_kept:
  assumes "Board_new cfg rs = Some (Inr (b, rs1))"
    and "''road'' \<in> set (cfg_rowTypes cfg)"
    and "randomOk rs1"
  shows "enemyCount b = cfg_numberOfEnemies cfg \<and> numberOfEnemies b = cfg_numberOfEnemies cfg \<and>
         (\<forall>e. EnemyE e \<in> set (nonPlayerEntities b) \<longrightarrow> \<not> removeOnHit e) \<and>
         (\<forall>events. \<exists>b' rs'. Board_run globalBoard events (b, rs1) = Inr (b', rs') \<and>
              enemyCount b' = numberOfEnemies b' \<and> numberOfEnemies b' = cfg_numberOfEnemies cfg \<and>
              (\<forall>e. EnemyE e \<in> set (nonPlayerEntities b') \<longrightarrow> \<not> removeOnHit e))"
proof -
  note f = Board_new_Inr[OF assms(1,2)]
  have "\<exists>b' rs'. Board_run globalBoard events (b, rs1) = Inr (b', rs') \<and>
              enemyCount b' = numberOfEnemies b' \<and> numberOfEnemies b' = cfg_numberOfEnemies cfg \<and>
              (\<forall>e. EnemyE e \<in> set (nonPlayerEntities b') \<longrightarrow> \<not> removeOnHit e)" for events
  proof -
    from Board_run_inv[OF f(1) assms(3), of globalBoard events] obtain b' rs' where
      u: "Board_run globalBoard events (b, rs1) = Inr (b', rs')" "Board_inv b'"
         "enemyCount b' = enemyCount b" "numberOfEnemies b' = numberOfEnemies b" by blast
    from u(2) have "\<forall>e. EnemyE e \<in> set (nonPlayerEntities b') \<longrightarrow> \<not> removeOnHit e"
      unfolding Board_inv_def by blast
    with u f(2,3) show ?thesis by auto
  qed
  moreover from f(1) have "\<forall>e. EnemyE e \<in> set (nonPlayerEntities b) \<longrightarrow> \<not> removeOnHit e"
    unfolding Board_inv_def by blast
  ultimately show ?thesis using f(2,3) by blast
qed

theorem enemy_count_is_kept_witness:
  "Board_new exampleConfig (sconst (1 / 2)) = Some (Inr (exampleBoard, sconst (1 / 2))) \<and>
   ''road'' \<in> set (cfg_rowTypes exampleConfig) \<and>
   randomOk (sconst (1 / 2)) \<and>
   enemyCount exampleBoard = 1 \<and>
   (\<exists>b' rs'. Board_run None [Frame (1 / 60), KeyUp ''up'', Frame 10] (exampleBoard, sconst (1 / 2)) = Inr (b', rs') \<and>
       enemyCount b' = 1)"
proof -
  have road: "''road'' \<in> set (cfg_rowTypes exampleConfig)" by (simp add: exampleConfig_def)
  from enemy_count_is_kept[OF exampleBoard_new road randomOk_half, of None]
  have "enemyCount exampleBoard = cfg_numberOfEnemies exampleConfig"
    "\<exists>b' rs'. Board_run None [Frame (1 / 60), KeyUp ''up'', Frame 10] (exampleBoard, sconst (1 / 2)) = Inr (b', rs') \<and>
       enemyCount b' = numberOfEnemies b' \<and> numberOfEnemies b' = cfg_numberOfEnemies exampleConfig"
    by blast+
  then show ?thesis using exampleBoard_new road randomOk_half by (auto simp: exampleConfig_def)
qed

section \<open>Collisions in a pass of update\<close>
































end
